theory Spec2Isabelle
  imports Main "HOL-Library.Word"
begin

section \<open>Python values, errors and text helpers\<close>

text \<open>
  The exceptions the modelled code can raise. A function of the source that may raise
  returns \<open>py_error + 'a\<close>, with \<open>Inl\<close> for the exception.
\<close>

datatype py_error = IndexError | KeyError | AttributeError | RuntimeError string

text \<open>
  A dynamically typed Python value, for the places where the source tests the identity of
  a value (\<open>is None\<close>, \<open>is True\<close>, \<open>is False\<close>) or its class (\<open>isinstance\<close>).
\<close>

datatype py_value = PyNone | PyBool bool | PyInt int | PyStr string

text \<open>\<open>d[k]\<close> on a dict, kept as an association list in iteration order (keys distinct).\<close>

definition subscript :: "('k \<times> 'v) list \<Rightarrow> 'k \<Rightarrow> py_error + 'v" where
  "subscript d k = (case map_of d k of None \<Rightarrow> Inl KeyError | Some v \<Rightarrow> Inr v)"

text \<open>\<open>sep.join(xs)\<close>.\<close>

fun str_join :: "string \<Rightarrow> string list \<Rightarrow> string" where
  "str_join sep [] = []"
| "str_join sep [x] = x"
| "str_join sep (x # y # ys) = x @ sep @ str_join sep (y # ys)"

text \<open>\<open>sub in s\<close> on texts: \<open>sub\<close> occurs in \<open>s\<close> as a contiguous run.\<close>

fun str_contains :: "string \<Rightarrow> string \<Rightarrow> bool" where
  "str_contains sub [] = (sub = [])"
| "str_contains sub (c # cs) = (sub = take (length sub) (c # cs) \<or> str_contains sub cs)"

text \<open>\<open>str(n)\<close> on an integer: its decimal digits, with a minus sign when negative.\<close>

definition digit_char :: "nat \<Rightarrow> char" where
  "digit_char n = ''0123456789abcdef'' ! (n mod 16)"

function str_nat :: "nat \<Rightarrow> string" where
  "str_nat n = (if n < 10 then [digit_char n] else str_nat (n div 10) @ [digit_char (n mod 10)])"
  by pat_completeness auto
termination
  by (relation "measure (\<lambda>n. n)") auto

declare str_nat.simps [simp del]

definition str_int :: "int \<Rightarrow> string" where
  "str_int i = (if i < 0 then ''-'' @ str_nat (nat (- i)) else str_nat (nat i))"

text \<open>\<open>binascii.hexlify(bs).decode("ascii")\<close>: two lower-case hex digits per byte.\<close>

definition hexlify :: "8 word list \<Rightarrow> string" where
  "hexlify bs = concat (map (\<lambda>b. [digit_char (unat b div 16), digit_char (unat b mod 16)]) bs)"

text \<open>
  A text is a list of code points below 256, one \<open>char\<close> each.

  \<open>str(xs)\<close> on a list of texts: the \<open>repr\<close> of each element, separated by a comma and
  a space, in square brackets. \<open>repr\<close> quotes with \<open>"\<close> when the text holds a \<open>'\<close> and no
  \<open>"\<close>, and with \<open>'\<close> otherwise. It escapes the backslash and the quote in use with a
  backslash, writes tab, newline and carriage return as \<open>\t\<close>, \<open>\n\<close> and \<open>\r\<close>, and writes
  every other unprintable code point as \<open>\x\<close> and two lower-case hex digits: below 256
  these are the code points under 0x20, those from 0x7f to 0xa0, and 0xad.
\<close>

definition unprintable :: "char \<Rightarrow> bool" where
  "unprintable c =
     ((of_char c :: nat) < 0x20 \<or> (0x7F \<le> (of_char c :: nat) \<and> (of_char c :: nat) \<le> 0xA0)
      \<or> (of_char c :: nat) = 0xAD)"

definition py_repr :: "string \<Rightarrow> string" where
  "py_repr s =
     (let q = (if CHR 0x27 \<in> set s \<and> CHR 0x22 \<notin> set s then CHR 0x22 else CHR 0x27);
          esc = (\<lambda>c. if c = CHR 0x5C then [CHR 0x5C, CHR 0x5C]
                     else if c = q then [CHR 0x5C, q]
                     else if c = CHR 0x09 then [CHR 0x5C, CHR ''t'']
                     else if c = CHR 0x0A then [CHR 0x5C, CHR ''n'']
                     else if c = CHR 0x0D then [CHR 0x5C, CHR ''r'']
                     else if unprintable c
                     then [CHR 0x5C, CHR ''x'', digit_char (of_char c div 16),
                           digit_char (of_char c mod 16)]
                     else [c])
      in [q] @ concat (map esc s) @ [q])"

definition str_list :: "string list \<Rightarrow> string" where
  "str_list xs = ''['' @ str_join '', '' (map py_repr xs) @ '']''"

section \<open>sslyze/plugins/utils/certificate.py\<close>

text \<open>
  The class \<open>Certificate\<close>: the five attributes set by \<open>__init__\<close>. \<open>as_dict\<close> is a
  dict of dicts of texts; only its entries \<open>subject\<close> and \<open>issuer\<close> are read here.
\<close>

record Certificate =
  as_pem :: string
  as_text :: string
  as_dict :: "(string \<times> (string \<times> string) list) list"
  sha1_fingerprint :: string
  hpkp_pin :: string

text \<open>The right operand of \<open>==\<close>: an instance of the class, or any other object.\<close>

datatype py_object = CertificateObject Certificate | OtherObject py_value

text \<open>\<open>__eq__\<close>: \<open>isinstance(other, self.__class__) and self.as_pem == other.as_pem\<close>.\<close>

definition Certificate_eq :: "Certificate \<Rightarrow> py_object \<Rightarrow> bool" where
  "Certificate_eq self other =
     (case other of
        CertificateObject c \<Rightarrow> as_pem self = as_pem c
      | OtherObject _ \<Rightarrow> False)"

text \<open>\<open>__ne__\<close>: \<open>not self.__eq__(other)\<close>.\<close>

definition Certificate_ne :: "Certificate \<Rightarrow> py_object \<Rightarrow> bool" where
  "Certificate_ne self other = (\<not> Certificate_eq self other)"

text \<open>
  \<open>__hash__\<close>: \<open>hash(self.as_pem)\<close>. Python's built-in \<open>hash\<close> on texts is the
  parameter \<open>py_hash\<close>.
\<close>

definition Certificate_hash :: "(string \<Rightarrow> int) \<Rightarrow> Certificate \<Rightarrow> int" where
  "Certificate_hash py_hash self = py_hash (as_pem self)"

text \<open>
  \<open>printable_subject_name\<close>: the common name of the subject, else its organizational
  unit, else a fixed text. Both \<open>try\<close> blocks catch \<open>KeyError\<close> only.
\<close>

definition printable_subject_name :: "Certificate \<Rightarrow> py_error + string" where
  "printable_subject_name self =
     (case (case subscript (as_dict self) ''subject'' of
              Inl e \<Rightarrow> Inl e
            | Inr subject \<Rightarrow> subscript subject ''commonName'') of
        Inr cert_name \<Rightarrow> Inr cert_name
      | Inl KeyError \<Rightarrow>
          (case (case subscript (as_dict self) ''subject'' of
                   Inl e \<Rightarrow> Inl e
                 | Inr subject \<Rightarrow> subscript subject ''organizationalUnitName'') of
             Inr cert_name \<Rightarrow> Inr cert_name
           | Inl KeyError \<Rightarrow> Inr ''No Common Name''
           | Inl e \<Rightarrow> Inl e)
      | Inl e \<Rightarrow> Inl e)"

text \<open>
  \<open>printable_issuer_name\<close>: the \<open>try\<close> block reads
  \<open>self.as_dict['subject']['commonName']\<close>; on \<open>KeyError\<close> the handler joins the
  items of \<open>self.as_dict['issuer']\<close>, and a \<open>KeyError\<close> raised there is not caught.
\<close>

definition printable_issuer_name :: "Certificate \<Rightarrow> py_error + string" where
  "printable_issuer_name self =
     (case (case subscript (as_dict self) ''subject'' of
              Inl e \<Rightarrow> Inl e
            | Inr subject \<Rightarrow> subscript subject ''commonName'') of
        Inr issuer_name \<Rightarrow> Inr issuer_name
      | Inl KeyError \<Rightarrow>
          (case subscript (as_dict self) ''issuer'' of
             Inl e \<Rightarrow> Inl e
           | Inr issuer \<Rightarrow>
               Inr (str_join '' - '' (map (\<lambda>(key, val). key @ '': '' @ val) issuer)))
      | Inl e \<Rightarrow> Inl e)"

section \<open>sslyze/plugins/certificate_info/_cli_connector.py: the data read\<close>

text \<open>
  A distinguished name of the \<open>cryptography\<close> library, seen through the two things the
  code asks of it: its attribute/value pairs in order, and its \<open>rfc4514_string()\<close>.
\<close>

record x509_name =
  rdns :: "(string \<times> string) list"
  rfc4514_string :: string

text \<open>
  The public key of a certificate: the code tests it with \<open>isinstance\<close> against
  \<open>EllipticCurvePublicKey\<close> and \<open>RSAPublicKey\<close> and prints the name of its class.
  The arguments are the class name and then \<open>curve.key_size\<close> and \<open>curve.name\<close>, or
  \<open>key_size\<close> and \<open>public_numbers().e\<close>.
\<close>

datatype public_key =
    EllipticCurvePublicKey string int string
  | RSAPublicKey string int int
  | OtherPublicKey string

fun class_name :: "public_key \<Rightarrow> string" where
  "class_name (EllipticCurvePublicKey n _ _) = n"
| "class_name (RSAPublicKey n _ _) = n"
| "class_name (OtherPublicKey n) = n"

text \<open>A calendar date, as \<open>not_valid_before.date()\<close> gives it, and its \<open>isoformat()\<close>.\<close>

record date =
  year :: nat
  month :: nat
  day :: nat

definition zfill :: "nat \<Rightarrow> string \<Rightarrow> string" where
  "zfill w s = replicate (w - length s) (CHR ''0'') @ s"

definition isoformat :: "date \<Rightarrow> string" where
  "isoformat d =
     zfill 4 (str_nat (year d)) @ ''-'' @ zfill 2 (str_nat (month d)) @ ''-''
       @ zfill 2 (str_nat (day d))"

text \<open>
  A certificate of the \<open>cryptography\<close> library, seen through what the code reads:
  \<open>fingerprint(hashes.SHA1())\<close>, \<open>subject\<close>, \<open>issuer\<close>, \<open>serial_number\<close>, the dates of
  \<open>not_valid_before\<close> and \<open>not_valid_after\<close>, \<open>signature_hash_algorithm\<close>, \<open>public_key()\<close>,
  and the DNS entries of the subject-alternative-names extension when the certificate
  has that extension. \<open>signature_hash_algorithm\<close> is \<open>None\<close> for a certificate signed
  without a separate hash (an Ed25519 signature); otherwise the field holds the \<open>name\<close>
  of the algorithm.
\<close>

record x509_certificate =
  fingerprint_SHA1 :: "8 word list"
  subject :: x509_name
  issuer :: x509_name
  serial_number :: int
  not_valid_before :: date
  not_valid_after :: date
  signature_hash_algorithm :: "string option"
  public_key :: public_key
  dns_subject_alternative_names :: "string list option"

text \<open>
  Modelled from the spec: \<open>get_common_names\<close> of
  \<open>sslyze.plugins.certificate_info._certificate_utils\<close>, which is not among the sources.
  The spec (4.1) reduces a name to the value of its first Common Name attribute when it
  has at least one; the helper returns the values of the Common Name attributes in order.
\<close>

definition get_common_names :: "x509_name \<Rightarrow> string list" where
  "get_common_names name_field =
     map snd (filter (\<lambda>(attribute, _). attribute = ''commonName'') (rdns name_field))"

text \<open>
  Modelled from the spec: \<open>extract_dns_subject_alternative_names\<close> of the same module,
  not among the sources. The spec (4.1) has a certificate lacking the extension yield
  an explicit not-present marker, not an error: the helper returns the DNS names of the
  extension, and the empty list for a certificate without it; it does not raise.
\<close>

definition extract_dns_subject_alternative_names ::
  "x509_certificate \<Rightarrow> py_error + string list" where
  "extract_dns_subject_alternative_names certificate =
     (case dns_subject_alternative_names certificate of
        None \<Rightarrow> Inr []
      | Some names \<Rightarrow> Inr names)"

text \<open>
  Modelled from the spec: the trust store of a path validation result, whose class is
  not among the sources: its name, its version and whether it recognizes
  Extended-Validation OIDs (\<open>ev_oids\<close>, read by the code as a truth value).
\<close>

record trust_store =
  name :: string
  version :: string
  ev_oids :: bool

record path_validation_result =
  trust_store :: trust_store
  was_validation_successful :: bool
  openssL_verify_string :: string

text \<open>
  \<open>OcspResponseStatusEnum\<close> of the \<open>nassl\<close> library, with the six members the spec
  lists, and the \<open>name\<close> of each member.
\<close>

datatype OcspResponseStatusEnum =
  SUCCESSFUL | MALFORMED_REQUEST | INTERNAL_ERROR | TRY_LATER | SIG_REQUIRED | UNAUTHORIZED

fun enum_name :: "OcspResponseStatusEnum \<Rightarrow> string" where
  "enum_name SUCCESSFUL = ''SUCCESSFUL''"
| "enum_name MALFORMED_REQUEST = ''MALFORMED_REQUEST''"
| "enum_name INTERNAL_ERROR = ''INTERNAL_ERROR''"
| "enum_name TRY_LATER = ''TRY_LATER''"
| "enum_name SIG_REQUIRED = ''SIG_REQUIRED''"
| "enum_name UNAUTHORIZED = ''UNAUTHORIZED''"

text \<open>
  The decoded OCSP response, a dict with a fixed shape: the keys the code reads are the
  fields below, \<open>responses\<close> being a list of dicts and \<open>certID\<close> a dict of its own.
\<close>

record cert_id =
  serialNumber :: string

record single_response =
  certStatus :: string
  certID :: cert_id
  thisUpdate :: string
  nextUpdate :: string

record ocsp_response_dict =
  responseStatus :: string
  responderID :: string
  responses :: "single_response list"

text \<open>
  Modelled from the spec: the class \<open>CertificateInfoScanResult\<close>, declared in
  \<open>sslyze.plugins.certificate_info.implementation\<close>, which is not among the sources.
  The fields are the attributes that \<open>result_to_console_output\<close> reads, typed as the
  data model of the spec has them (flags, an optional count, optional checks). The
  legacy-anchor attribute is kept as a dynamically typed value, since the code tests it
  against \<open>None\<close>, \<open>True\<close> and \<open>False\<close> by identity and raises on anything else;
  \<open>ocsp_response_status\<close> and \<open>ocsp_response_is_trusted\<close> are read only when
  \<open>ocsp_response\<close> is present.
\<close>

record result =
  hostname_used_for_server_name_indication :: string
  leaf_certificate_subject_matches_hostname :: bool
  path_validation_results :: "path_validation_result list"
  leaf_certificate_is_ev :: bool
  verified_chain_has_legacy_symantec_anchor :: py_value
  received_certificate_chain :: "x509_certificate list"
  verified_certificate_chain :: "x509_certificate list option"
  received_chain_contains_anchor_certificate :: "bool option"
  received_chain_has_valid_order :: bool
  verified_chain_has_sha1_signature :: "bool option"
  leaf_certificate_has_must_staple_extension :: bool
  leaf_certificate_signed_certificate_timestamps_count :: "int option"
  ocsp_response :: "ocsp_response_dict option"
  ocsp_response_status :: OcspResponseStatusEnum
  ocsp_response_is_trusted :: bool

text \<open>
  The lines of the output. \<open>_format_title\<close>, \<open>_format_subtitle\<close> and \<open>_format_field\<close>
  are inherited from \<open>ScanCommandCliConnector\<close> in \<open>sslyze.plugins.plugin_base\<close>, which
  is not among the sources: a call to one of them is kept as a constructor holding its
  arguments, and \<open>text_line\<close> is a text appended as it is.
\<close>

datatype line =
  format_title string | format_subtitle string | format_field string string | text_line string

section \<open>sslyze/plugins/certificate_info/_cli_connector.py: the functions\<close>

definition TRUST_FORMAT :: "string \<Rightarrow> string \<Rightarrow> string" where
  "TRUST_FORMAT store_name store_version = store_name @ '' CA Store ('' @ store_version @ ''):''"

definition NO_VERIFIED_CHAIN_ERROR_TXT :: string where
  "NO_VERIFIED_CHAIN_ERROR_TXT = ''ERROR - Could not build verified chain (certificate untrusted?)''"

text \<open>
  \<open>_get_name_as_short_text\<close>: the first common name when there is one, else the whole
  field.
\<close>

definition get_name_as_short_text :: "x509_name \<Rightarrow> string" where
  "get_name_as_short_text name_field =
     (case get_common_names name_field of
        cn # _ \<Rightarrow> cn
      | [] \<Rightarrow> rfc4514_string name_field)"

text \<open>
  \<open>_get_basic_certificate_text\<close>. \<open>result.received_certificate_chain[0]\<close> raises
  \<open>IndexError\<close> on an empty chain, and \<open>certificate.signature_hash_algorithm.name\<close>
  raises \<open>AttributeError\<close> when the certificate has no signature hash algorithm; this
  is the seventh element of the list, and the six before it do not raise. The last
  block appends the field of the subject-alternative names inside a \<open>try\<close> whose handler
  for \<open>KeyError\<close> is \<open>pass\<close>.
\<close>

definition key_text :: "public_key \<Rightarrow> line list" where
  "key_text k =
     (case k of
        EllipticCurvePublicKey _ curve_key_size curve_name \<Rightarrow>
          [format_field ''Key Size:'' (str_int curve_key_size), format_field ''Curve:'' curve_name]
      | RSAPublicKey _ key_size e \<Rightarrow>
          [format_field ''Key Size:'' (str_int key_size), format_field ''Exponent:'' (str_int e)]
      | OtherPublicKey _ \<Rightarrow> [])"

definition san_text :: "x509_certificate \<Rightarrow> py_error + line list" where
  "san_text certificate =
     (case extract_dns_subject_alternative_names certificate of
        Inr names \<Rightarrow> Inr [format_field ''DNS Subject Alternative Names:'' (str_list names)]
      | Inl KeyError \<Rightarrow> Inr []
      | Inl e \<Rightarrow> Inl e)"

definition get_basic_certificate_text :: "result \<Rightarrow> py_error + line list" where
  "get_basic_certificate_text r =
     (case received_certificate_chain r of
        [] \<Rightarrow> Inl IndexError
      | certificate # _ \<Rightarrow>
          (case signature_hash_algorithm certificate of
             None \<Rightarrow> Inl AttributeError
           | Some algorithm_name \<Rightarrow>
               (let text_output =
                      [format_field ''SHA1 Fingerprint:'' (hexlify (fingerprint_SHA1 certificate)),
                       format_field ''Common Name:'' (get_name_as_short_text (subject certificate)),
                       format_field ''Issuer:'' (get_name_as_short_text (issuer certificate)),
                       format_field ''Serial Number:'' (str_int (serial_number certificate)),
                       format_field ''Not Before:'' (isoformat (not_valid_before certificate)),
                       format_field ''Not After:'' (isoformat (not_valid_after certificate)),
                       format_field ''Signature Algorithm:'' algorithm_name,
                       format_field ''Public Key Algorithm:'' (class_name (public_key certificate))]
                      @ key_text (public_key certificate)
                in case san_text certificate of
                     Inl e \<Rightarrow> Inl e
                   | Inr san \<Rightarrow> Inr (text_output @ san))))"

text \<open>The texts that \<open>result_to_console_output\<close> computes, in the order of the source.\<close>

definition hostname_validation_text :: "result \<Rightarrow> string" where
  "hostname_validation_text r =
     (if leaf_certificate_subject_matches_hostname r
      then ''OK - Certificate matches '' @ hostname_used_for_server_name_indication r
      else ''FAILED - Certificate does NOT match '' @ hostname_used_for_server_name_indication r)"

definition path_txt :: "result \<Rightarrow> path_validation_result \<Rightarrow> string" where
  "path_txt r path_result =
     (if was_validation_successful path_result
      then (let ev_txt = (if leaf_certificate_is_ev r \<and> ev_oids (trust_store path_result)
                          then '', Extended Validation'' else '''')
            in ''OK - Certificate is trusted'' @ ev_txt)
      else ''FAILED - Certificate is NOT Trusted: '' @ openssL_verify_string path_result)"

definition path_line :: "result \<Rightarrow> path_validation_result \<Rightarrow> line" where
  "path_line r path_result =
     format_field
       (TRUST_FORMAT (name (trust_store path_result)) (version (trust_store path_result)))
       (path_txt r path_result)"

definition symantec_str :: "result \<Rightarrow> py_error + string" where
  "symantec_str r =
     (if verified_chain_has_legacy_symantec_anchor r = PyNone
      then Inr NO_VERIFIED_CHAIN_ERROR_TXT
      else if verified_chain_has_legacy_symantec_anchor r = PyBool True
      then Inr ''WARNING: Certificate distrusted by Google and Mozilla since 2018''
      else if verified_chain_has_legacy_symantec_anchor r = PyBool False
      then Inr ''OK - Not a Symantec-issued certificate''
      else Inl (RuntimeError ''Should never happen''))"

definition received_chain_txt :: "result \<Rightarrow> string" where
  "received_chain_txt r =
     str_join '' --> '' (map (\<lambda>cert. get_name_as_short_text (subject cert))
                              (received_certificate_chain r))"

text \<open>\<open>if result.verified_certificate_chain\<close>: neither \<open>None\<close> nor an empty list.\<close>

definition has_verified_chain :: "result \<Rightarrow> bool" where
  "has_verified_chain r =
     (case verified_certificate_chain r of
        None \<Rightarrow> False
      | Some [] \<Rightarrow> False
      | Some (_ # _) \<Rightarrow> True)"

definition verified_chain_txt :: "result \<Rightarrow> string" where
  "verified_chain_txt r =
     (case verified_certificate_chain r of
        Some (c # cs) \<Rightarrow>
          str_join '' --> '' (map (\<lambda>cert. get_name_as_short_text (subject cert)) (c # cs))
      | _ \<Rightarrow> NO_VERIFIED_CHAIN_ERROR_TXT)"

definition chain_with_anchor_txt :: "result \<Rightarrow> string" where
  "chain_with_anchor_txt r =
     (if has_verified_chain r
      then (if received_chain_contains_anchor_certificate r \<noteq> Some True
            then ''OK - Anchor certificate not sent''
            else ''WARNING - Received certificate chain contains the anchor certificate'')
      else NO_VERIFIED_CHAIN_ERROR_TXT)"

definition chain_order_txt :: "result \<Rightarrow> string" where
  "chain_order_txt r =
     (if received_chain_has_valid_order r
      then ''OK - Order is valid''
      else ''FAILED - Certificate chain out of order!'')"

definition sha1_text :: "result \<Rightarrow> string" where
  "sha1_text r =
     (if has_verified_chain r
      then (if verified_chain_has_sha1_signature r \<noteq> Some True
            then ''OK - No SHA1-signed certificate in the verified certificate chain''
            else ''INSECURE - SHA1-signed certificate in the verified certificate chain'')
      else NO_VERIFIED_CHAIN_ERROR_TXT)"

definition must_staple_txt :: "result \<Rightarrow> string" where
  "must_staple_txt r =
     (if leaf_certificate_has_must_staple_extension r
      then ''OK - Extension present''
      else ''NOT SUPPORTED - Extension not found'')"

definition sct_txt :: "int option \<Rightarrow> string" where
  "sct_txt scts_count =
     (case scts_count of
        None \<Rightarrow> ''OK - Extension present''
      | Some n \<Rightarrow>
          (if n = 0 then ''NOT SUPPORTED - Extension not found''
           else if n < 3
           then ''WARNING - Only '' @ str_int n @ '' SCTs included but Google recommends 3 or more''
           else ''OK - '' @ str_int n @ '' SCTs included''))"

text \<open>
  The OCSP section after its subtitle. \<open>result.ocsp_response["responses"][0]\<close> raises
  \<open>IndexError\<close> on an empty list; it is evaluated only under the test
  \<open>"successful" in result.ocsp_response["responseStatus"]\<close>.
\<close>

definition ocsp_resp_txt :: "result \<Rightarrow> ocsp_response_dict \<Rightarrow> py_error + line list" where
  "ocsp_resp_txt r response =
     (if ocsp_response_status r \<noteq> SUCCESSFUL
      then Inr [format_field '''' (''ERROR - OCSP response status is not successful: ''
                             @ enum_name (ocsp_response_status r))]
      else
        (let ocsp_trust_txt = (if ocsp_response_is_trusted r
                               then ''OK - Response is trusted''
                               else ''FAILED - Response is NOT trusted'');
             ocsp_resp =
               [format_field ''OCSP Response Status:'' (responseStatus response),
                format_field ''Validation w/ Mozilla Store:'' ocsp_trust_txt,
                format_field ''Responder Id:'' (responderID response)]
         in if str_contains ''successful'' (responseStatus response)
            then (case responses response of
                    [] \<Rightarrow> Inl IndexError
                  | response0 # _ \<Rightarrow>
                      Inr (ocsp_resp @
                           [format_field ''Cert Status:'' (certStatus response0),
                            format_field ''Cert Serial Number:'' (serialNumber (certID response0)),
                            format_field ''This Update:'' (thisUpdate response0),
                            format_field ''Next Update:'' (nextUpdate response0)]))
            else Inr ocsp_resp))"

definition ocsp_section :: "result \<Rightarrow> py_error + line list" where
  "ocsp_section r =
     (case ocsp_response r of
        None \<Rightarrow> Inr [format_field '''' ''NOT SUPPORTED - Server did not send back an OCSP response'']
      | Some response \<Rightarrow> ocsp_resp_txt r response)"

text \<open>
  The lines between the basic certificate text and the OCSP section, given the text of
  the legacy-anchor check. Nothing here raises.
\<close>

definition trust_and_extensions :: "result \<Rightarrow> string \<Rightarrow> line list" where
  "trust_and_extensions r symantec =
     [text_line '''',
      format_subtitle ''Trust'',
      format_field ''Hostname used for SNI:'' (hostname_used_for_server_name_indication r),
      format_field ''Hostname Validation:'' (hostname_validation_text r)]
     @ map (path_line r) (path_validation_results r)
     @ [format_field ''Symantec 2018 Deprecation:'' symantec,
        format_field ''Received Chain:'' (received_chain_txt r),
        format_field ''Verified Chain:'' (verified_chain_txt r),
        format_field ''Received Chain Contains Anchor:'' (chain_with_anchor_txt r),
        format_field ''Received Chain Order:'' (chain_order_txt r),
        format_field ''Verified Chain contains SHA1:'' (sha1_text r),
        text_line '''',
        format_subtitle ''Extensions'',
        format_field ''OCSP Must-Staple:'' (must_staple_txt r),
        format_field ''Certificate Transparency:''
              (sct_txt (leaf_certificate_signed_certificate_timestamps_count r)),
        text_line '''',
        format_subtitle ''OCSP Stapling'']"

text \<open>
  \<open>result_to_console_output\<close>. The exceptions come in the order of the source: the
  basic certificate text first, then the legacy-anchor check (raised after the loop over
  the path validation results, which cannot raise), then the OCSP section.
\<close>

definition result_to_console_output :: "result \<Rightarrow> py_error + line list" where
  "result_to_console_output r =
     (case get_basic_certificate_text r of
        Inl e \<Rightarrow> Inl e
      | Inr basic \<Rightarrow>
          (case symantec_str r of
             Inl e \<Rightarrow> Inl e
           | Inr symantec \<Rightarrow>
               (case ocsp_section r of
                  Inl e \<Rightarrow> Inl e
                | Inr ocsp \<Rightarrow>
                    Inr ([format_title ''Certificate Information''] @ basic
                         @ trust_and_extensions r symantec @ ocsp))))"

section \<open>The producer of the result\<close>

text \<open>
  Modelled from the spec: the scan implementation that fills the result
  (\<open>sslyze.plugins.certificate_info.implementation\<close>) is not among the sources. The spec
  (3, 4.4) has a verified chain exactly when some path validation succeeded, and makes
  the checks that need a verified chain (legacy-CA distrust, anchor inclusion, SHA-1 in
  the verified chain) Unknown, here \<open>None\<close>, when there is none.
\<close>

definition unknown_without_verified_chain :: "result \<Rightarrow> bool" where
  "unknown_without_verified_chain r =
     ((list_ex was_validation_successful (path_validation_results r) = has_verified_chain r)
      \<and> (\<not> has_verified_chain r \<longrightarrow>
             verified_chain_has_legacy_symantec_anchor r = PyNone
           \<and> received_chain_contains_anchor_certificate r = None
           \<and> verified_chain_has_sha1_signature r = None))"

text \<open>
  Modelled from the spec: the part of the same implementation that sets the order flag.
  The spec (4.4) evaluates the order on the received chain, independent of the trust
  outcome: the flag is true iff each non-leaf certificate in the received sequence is
  the issuer of the preceding certificate, leaf first. A certificate is the issuer of
  another when its subject is the issuer name of the other.
\<close>

fun received_chain_in_order :: "x509_certificate list \<Rightarrow> bool" where
  "received_chain_in_order [] = True"
| "received_chain_in_order [c] = True"
| "received_chain_in_order (c # d # cs) = (subject d = issuer c \<and> received_chain_in_order (d # cs))"

definition with_chain_order :: "result \<Rightarrow> result" where
  "with_chain_order r =
     r\<lparr>received_chain_has_valid_order := received_chain_in_order (received_certificate_chain r)\<rparr>"

section \<open>Example inputs\<close>

text \<open>
  A leaf certificate with an RSA key and no subject-alternative-names extension, and a
  result for it: one trust store, whose validation failed, no verified chain, no OCSP
  response.
\<close>

definition example_certificate :: x509_certificate where
  "example_certificate =
     \<lparr>fingerprint_SHA1 =
        [0x2b, 0x8f, 0x1b, 0x57, 0x33, 0x0d, 0xbb, 0xa2, 0xd0, 0x7a,
         0x6c, 0x51, 0xf7, 0x0e, 0xe9, 0x0d, 0xda, 0xb9, 0xad, 0x8e],
      subject = \<lparr>rdns = [(''commonName'', ''example.com'')],
                 rfc4514_string = ''CN=example.com''\<rparr>,
      issuer = \<lparr>rdns = [(''countryName'', ''US''), (''organizationName'', ''Example CA'')],
                rfc4514_string = ''O=Example CA,C=US''\<rparr>,
      serial_number = 4096,
      not_valid_before = \<lparr>year = 2020, month = 1, day = 5\<rparr>,
      not_valid_after = \<lparr>year = 2021, month = 1, day = 5\<rparr>,
      signature_hash_algorithm = Some ''sha256'',
      public_key = RSAPublicKey ''_RSAPublicKey'' 2048 65537,
      dns_subject_alternative_names = None\<rparr>"

text \<open>
  The certificate that issued the example certificate, and the self-signed root that
  issued that one.
\<close>

definition example_intermediate :: x509_certificate where
  "example_intermediate =
     example_certificate
       \<lparr>subject := \<lparr>rdns = [(''countryName'', ''US''), (''organizationName'', ''Example CA'')],
                    rfc4514_string = ''O=Example CA,C=US''\<rparr>,
        issuer := \<lparr>rdns = [(''commonName'', ''Example Root'')],
                   rfc4514_string = ''CN=Example Root''\<rparr>,
        serial_number := 17\<rparr>"

definition example_root :: x509_certificate where
  "example_root =
     example_certificate
       \<lparr>subject := \<lparr>rdns = [(''commonName'', ''Example Root'')],
                    rfc4514_string = ''CN=Example Root''\<rparr>,
        issuer := \<lparr>rdns = [(''commonName'', ''Example Root'')],
                   rfc4514_string = ''CN=Example Root''\<rparr>,
        serial_number := 1\<rparr>"

definition example_path_result :: path_validation_result where
  "example_path_result =
     \<lparr>trust_store = \<lparr>name = ''Mozilla'', version = ''1'', ev_oids = True\<rparr>,
      was_validation_successful = False,
      openssL_verify_string = ''self signed certificate''\<rparr>"

definition example_result :: result where
  "example_result =
     \<lparr>hostname_used_for_server_name_indication = ''example.com'',
      leaf_certificate_subject_matches_hostname = True,
      path_validation_results = [example_path_result],
      leaf_certificate_is_ev = False,
      verified_chain_has_legacy_symantec_anchor = PyNone,
      received_certificate_chain = [example_certificate],
      verified_certificate_chain = None,
      received_chain_contains_anchor_certificate = None,
      received_chain_has_valid_order = True,
      verified_chain_has_sha1_signature = None,
      leaf_certificate_has_must_staple_extension = False,
      leaf_certificate_signed_certificate_timestamps_count = Some 1,
      ocsp_response = None,
      ocsp_response_status = SUCCESSFUL,
      ocsp_response_is_trusted = False\<rparr>"

text \<open>A decoded OCSP response whose status text is \<open>successful\<close> and whose list is empty.\<close>

definition example_ocsp_response :: ocsp_response_dict where
  "example_ocsp_response =
     \<lparr>responseStatus = ''successful'', responderID = ''C = US, O = Example CA'',
      responses = []\<rparr>"

section \<open>Auxiliary facts\<close>

lemmas example_defs =
  example_result_def example_certificate_def example_path_result_def example_ocsp_response_def

lemmas output_defs =
  result_to_console_output_def get_basic_certificate_text_def san_text_def
  extract_dns_subject_alternative_names_def symantec_str_def ocsp_section_def ocsp_resp_txt_def

lemma str_nat_digit: "n < 10 \<Longrightarrow> str_nat n = [digit_char n]"
  by (simp add: str_nat.simps)

text \<open>When \<open>result_to_console_output\<close> returns, its lines are those of the three parts.\<close>

lemma output_elim:
  "result_to_console_output r = Inr ls \<Longrightarrow>
   \<exists>basic symantec ocsp.
     get_basic_certificate_text r = Inr basic \<and> symantec_str r = Inr symantec \<and>
     ocsp_section r = Inr ocsp \<and>
     ls = [format_title ''Certificate Information''] @ basic @ trust_and_extensions r symantec @ ocsp"
  by (auto simp: result_to_console_output_def split: sum.splits)

text \<open>
  The basic certificate text is produced exactly when the received chain has a leaf and
  the leaf has a signature hash algorithm.
\<close>

lemma basic_returns_iff:
  "(\<exists>basic. get_basic_certificate_text r = Inr basic) \<longleftrightarrow>
     received_certificate_chain r \<noteq> []
   \<and> signature_hash_algorithm (hd (received_certificate_chain r)) \<noteq> None"
  by (auto simp: get_basic_certificate_text_def san_text_def
      extract_dns_subject_alternative_names_def Let_def split: list.splits option.splits)

text \<open>
  \<open>result_to_console_output\<close> returns exactly when the basic certificate text is
  produced, the legacy-anchor attribute is \<open>None\<close>, \<open>True\<close> or \<open>False\<close>, and a successful
  OCSP response whose status text contains \<open>successful\<close> has at least one entry.
\<close>

lemma output_returns_iff:
  "(\<exists>ls. result_to_console_output r = Inr ls) \<longleftrightarrow>
     received_certificate_chain r \<noteq> []
   \<and> signature_hash_algorithm (hd (received_certificate_chain r)) \<noteq> None
   \<and> verified_chain_has_legacy_symantec_anchor r \<in> {PyNone, PyBool True, PyBool False}
   \<and> (\<forall>d. ocsp_response r = Some d \<longrightarrow> ocsp_response_status r = SUCCESSFUL \<longrightarrow>
          str_contains ''successful'' (responseStatus d) \<longrightarrow> responses d \<noteq> [])"
  by (auto simp: output_defs Let_def split: sum.splits list.splits option.splits)

text \<open>The parts other than the OCSP section do not read \<open>ocsp_response\<close>.\<close>

lemma path_line_ocsp_update: "path_line (r\<lparr>ocsp_response := x\<rparr>) = path_line r"
  by (rule ext) (simp add: path_line_def path_txt_def)

lemma ocsp_update:
  "get_basic_certificate_text (r\<lparr>ocsp_response := x\<rparr>) = get_basic_certificate_text r"
  "symantec_str (r\<lparr>ocsp_response := x\<rparr>) = symantec_str r"
  "trust_and_extensions (r\<lparr>ocsp_response := x\<rparr>) s = trust_and_extensions r s"
  "ocsp_resp_txt (r\<lparr>ocsp_response := x\<rparr>) d = ocsp_resp_txt r d"
  by (simp_all add: get_basic_certificate_text_def symantec_str_def trust_and_extensions_def
      path_line_ocsp_update hostname_validation_text_def received_chain_txt_def
      verified_chain_txt_def chain_with_anchor_txt_def has_verified_chain_def chain_order_txt_def
      sha1_text_def must_staple_txt_def ocsp_resp_txt_def)

text \<open>
  The titles of the fields. A field of the basic certificate text or of the OCSP section
  has one of a fixed set of titles, and the title of a trust store ends with \<open>):\<close>.
\<close>

lemma basic_titles:
  "get_basic_certificate_text r = Inr basic \<Longrightarrow> format_field t v \<in> set basic \<Longrightarrow>
   t \<in> {''SHA1 Fingerprint:'', ''Common Name:'', ''Issuer:'', ''Serial Number:'', ''Not Before:'',
        ''Not After:'', ''Signature Algorithm:'', ''Public Key Algorithm:'', ''Key Size:'',
        ''Curve:'', ''Exponent:'', ''DNS Subject Alternative Names:''}"
  by (auto simp: get_basic_certificate_text_def san_text_def key_text_def
      extract_dns_subject_alternative_names_def Let_def
      split: list.splits option.splits public_key.splits)

lemma ocsp_titles:
  "ocsp_section r = Inr ocsp \<Longrightarrow> format_field t v \<in> set ocsp \<Longrightarrow>
   t \<in> {'''', ''OCSP Response Status:'', ''Validation w/ Mozilla Store:'', ''Responder Id:'',
        ''Cert Status:'', ''Cert Serial Number:'', ''This Update:'', ''Next Update:''}"
  by (auto simp: ocsp_section_def ocsp_resp_txt_def Let_def
      split: option.splits if_splits list.splits)

lemma trust_title_ends: "\<exists>front. TRUST_FORMAT store_name store_version = front @ ''):''"
  by (simp add: TRUST_FORMAT_def)

lemma trust_title_not_order: "TRUST_FORMAT store_name store_version \<noteq> ''Received Chain Order:''"
proof
  assume "TRUST_FORMAT store_name store_version = ''Received Chain Order:''"
  then have "rev (TRUST_FORMAT store_name store_version) = rev ''Received Chain Order:''"
    by (rule arg_cong)
  then show False
    by (simp add: TRUST_FORMAT_def)
qed

lemma trust_title_not_symantec:
  "TRUST_FORMAT store_name store_version \<noteq> ''Symantec 2018 Deprecation:''"
proof
  assume "TRUST_FORMAT store_name store_version = ''Symantec 2018 Deprecation:''"
  then have "rev (TRUST_FORMAT store_name store_version) = rev ''Symantec 2018 Deprecation:''"
    by (rule arg_cong)
  then show False
    by (simp add: TRUST_FORMAT_def)
qed

text \<open>
  A produced output has one field for the order of the received chain and one for the
  legacy-anchor check, holding the texts computed for them.
\<close>

lemma order_field:
  assumes "result_to_console_output r = Inr ls"
  shows "format_field ''Received Chain Order:'' v \<in> set ls \<longleftrightarrow> v = chain_order_txt r"
proof -
  from output_elim [OF assms] obtain basic symantec ocsp where
    basic: "get_basic_certificate_text r = Inr basic" and ocsp: "ocsp_section r = Inr ocsp"
    and ls: "ls = [format_title ''Certificate Information''] @ basic
                  @ trust_and_extensions r symantec @ ocsp"
    by blast
  have "format_field ''Received Chain Order:'' v \<notin> set basic"
    using basic_titles [OF basic, of "''Received Chain Order:''" v] by auto
  moreover have "format_field ''Received Chain Order:'' v \<notin> set ocsp"
    using ocsp_titles [OF ocsp, of "''Received Chain Order:''" v] by auto
  moreover have "format_field ''Received Chain Order:'' v \<in> set (trust_and_extensions r symantec)
                 \<longleftrightarrow> v = chain_order_txt r"
    by (auto simp: trust_and_extensions_def path_line_def trust_title_not_order
        trust_title_not_order [symmetric])
  ultimately show ?thesis
    using ls by auto
qed

lemma symantec_field:
  assumes "result_to_console_output r = Inr ls"
  shows "format_field ''Symantec 2018 Deprecation:'' v \<in> set ls \<longleftrightarrow> symantec_str r = Inr v"
proof -
  from output_elim [OF assms] obtain basic symantec ocsp where
    basic: "get_basic_certificate_text r = Inr basic" and ocsp: "ocsp_section r = Inr ocsp"
    and sym: "symantec_str r = Inr symantec"
    and ls: "ls = [format_title ''Certificate Information''] @ basic
                  @ trust_and_extensions r symantec @ ocsp"
    by blast
  have "format_field ''Symantec 2018 Deprecation:'' v \<notin> set basic"
    using basic_titles [OF basic, of "''Symantec 2018 Deprecation:''" v] by auto
  moreover have "format_field ''Symantec 2018 Deprecation:'' v \<notin> set ocsp"
    using ocsp_titles [OF ocsp, of "''Symantec 2018 Deprecation:''" v] by auto
  moreover have "format_field ''Symantec 2018 Deprecation:'' v \<in> set (trust_and_extensions r symantec)
                 \<longleftrightarrow> v = symantec"
    by (auto simp: trust_and_extensions_def path_line_def trust_title_not_symantec
        trust_title_not_symantec [symmetric])
  ultimately show ?thesis
    using ls sym by auto
qed

section \<open>Certificate Transparency\<close>

text \<open>
  The text for an absent count (\<open>None\<close>) is not the text for the count 0, and the whole
  output differs with it: against claim C1 as stated.
\<close>

theorem sct_absent_not_as_zero:
  "sct_txt None = ''OK - Extension present''
   \<and> sct_txt (Some 0) = ''NOT SUPPORTED - Extension not found''
   \<and> sct_txt None \<noteq> sct_txt (Some 0)
   \<and> result_to_console_output
         (example_result\<lparr>leaf_certificate_signed_certificate_timestamps_count := None\<rparr>)
       \<noteq> result_to_console_output
         (example_result\<lparr>leaf_certificate_signed_certificate_timestamps_count := Some 0\<rparr>)"
  by (simp add: sct_txt_def result_to_console_output_def get_basic_certificate_text_def
      example_result_def san_text_def extract_dns_subject_alternative_names_def
      example_certificate_def symantec_str_def ocsp_section_def trust_and_extensions_def)

text \<open>
  Claim C1, amended: the classification of the SCT count is four-way. An absent count
  (\<open>None\<close>) gives \<open>OK - Extension present\<close>; the count 0 gives
  \<open>NOT SUPPORTED - Extension not found\<close>; the counts 1 and 2 give the warning that
  fewer than the recommended 3 are included; a count of 3 or more gives
  \<open>OK - n SCTs included\<close>. Whenever the output is produced, it holds the field
  \<open>Certificate Transparency:\<close> with that text.
\<close>

theorem sct_txt_thresholds:
  "sct_txt None = ''OK - Extension present''
   \<and> sct_txt (Some 0) = ''NOT SUPPORTED - Extension not found''
   \<and> sct_txt (Some 1) = ''WARNING - Only 1 SCTs included but Google recommends 3 or more''
   \<and> sct_txt (Some 2) = ''WARNING - Only 2 SCTs included but Google recommends 3 or more''
   \<and> (3 \<le> n \<longrightarrow> sct_txt (Some n) = ''OK - '' @ str_int n @ '' SCTs included'')
   \<and> (result_to_console_output r = Inr ls \<longrightarrow>
        format_field ''Certificate Transparency:''
          (sct_txt (leaf_certificate_signed_certificate_timestamps_count r)) \<in> set ls)"
proof -
  have "result_to_console_output r = Inr ls \<Longrightarrow>
        format_field ''Certificate Transparency:''
          (sct_txt (leaf_certificate_signed_certificate_timestamps_count r)) \<in> set ls"
    by (drule output_elim) (auto simp: trust_and_extensions_def)
  then show ?thesis
    by (simp add: sct_txt_def str_int_def str_nat_digit digit_char_def)
qed

text \<open>At the count 3, and in the output for the example result, whose count is 1.\<close>

theorem sct_txt_thresholds_witness:
  "(3::int) \<le> 3 \<and> sct_txt (Some 3) = ''OK - 3 SCTs included''
   \<and> (\<exists>ls. result_to_console_output example_result = Inr ls
        \<and> format_field ''Certificate Transparency:''
             ''WARNING - Only 1 SCTs included but Google recommends 3 or more'' \<in> set ls)"
proof -
  obtain ls where ls: "result_to_console_output example_result = Inr ls"
    using output_returns_iff [of example_result] by (auto simp: example_defs)
  have c: "leaf_certificate_signed_certificate_timestamps_count example_result = Some 1"
    by (simp add: example_result_def)
  have s3: "str_int 3 = ''3''"
    by (simp add: str_int_def str_nat_digit digit_char_def)
  from sct_txt_thresholds [of 3 example_result ls] ls c s3 show ?thesis
    by auto
qed

section \<open>The OCSP section\<close>

text \<open>
  A response with status \<open>SUCCESSFUL\<close>, the status text \<open>successful\<close> and an empty list
  of entries: element zero is read and the output fails with \<open>IndexError\<close>, against
  claim C2 as stated.
\<close>

theorem ocsp_successful_empty_responses_raises:
  "ocsp_response_status (example_result\<lparr>ocsp_response := Some example_ocsp_response\<rparr>) = SUCCESSFUL
   \<and> responses example_ocsp_response = []
   \<and> ocsp_section (example_result\<lparr>ocsp_response := Some example_ocsp_response\<rparr>) = Inl IndexError
   \<and> result_to_console_output (example_result\<lparr>ocsp_response := Some example_ocsp_response\<rparr>)
       = Inl IndexError"
  by (simp add: example_defs output_defs)

text \<open>
  Claim C2, amended: for a result whose OCSP response has status \<open>SUCCESSFUL\<close>, the
  substring test on the status text is the only guard of the entries. When the text
  does not contain \<open>successful\<close>, the section is the three response-level fields and no
  entry is read, whatever the list. When it does and the list has a first entry, the
  section adds the four fields of that entry.
\<close>

theorem ocsp_successful_guard:
  "ocsp_response r = Some d \<Longrightarrow> ocsp_response_status r = SUCCESSFUL \<Longrightarrow>
     (\<not> str_contains ''successful'' (responseStatus d) \<longrightarrow>
        ocsp_section r =
          Inr [format_field ''OCSP Response Status:'' (responseStatus d),
               format_field ''Validation w/ Mozilla Store:''
                 (if ocsp_response_is_trusted r then ''OK - Response is trusted''
                  else ''FAILED - Response is NOT trusted''),
               format_field ''Responder Id:'' (responderID d)])
   \<and> (str_contains ''successful'' (responseStatus d) \<longrightarrow> responses d = first # others \<longrightarrow>
        ocsp_section r =
          Inr [format_field ''OCSP Response Status:'' (responseStatus d),
               format_field ''Validation w/ Mozilla Store:''
                 (if ocsp_response_is_trusted r then ''OK - Response is trusted''
                  else ''FAILED - Response is NOT trusted''),
               format_field ''Responder Id:'' (responderID d),
               format_field ''Cert Status:'' (certStatus first),
               format_field ''Cert Serial Number:'' (serialNumber (certID first)),
               format_field ''This Update:'' (thisUpdate first),
               format_field ''Next Update:'' (nextUpdate first)])"
  by (simp add: ocsp_section_def ocsp_resp_txt_def)

text \<open>
  With the status text \<open>unknown\<close> and an empty list, and with the status text
  \<open>successful\<close> and one entry.
\<close>

theorem ocsp_successful_guard_witness:
  "ocsp_section (example_result\<lparr>ocsp_response :=
       Some \<lparr>responseStatus = ''unknown'', responderID = ''R'', responses = []\<rparr>\<rparr>)
     = Inr [format_field ''OCSP Response Status:'' ''unknown'',
            format_field ''Validation w/ Mozilla Store:'' ''FAILED - Response is NOT trusted'',
            format_field ''Responder Id:'' ''R'']
   \<and> ocsp_section (example_result\<lparr>ocsp_response :=
       Some \<lparr>responseStatus = ''successful'', responderID = ''R'',
             responses = [\<lparr>certStatus = ''good'', certID = \<lparr>serialNumber = ''1000''\<rparr>,
                           thisUpdate = ''Jan  5 00:00:00 2020 GMT'',
                           nextUpdate = ''Jan 12 00:00:00 2020 GMT''\<rparr>]\<rparr>\<rparr>)
     = Inr [format_field ''OCSP Response Status:'' ''successful'',
            format_field ''Validation w/ Mozilla Store:'' ''FAILED - Response is NOT trusted'',
            format_field ''Responder Id:'' ''R'',
            format_field ''Cert Status:'' ''good'',
            format_field ''Cert Serial Number:'' ''1000'',
            format_field ''This Update:'' ''Jan  5 00:00:00 2020 GMT'',
            format_field ''Next Update:'' ''Jan 12 00:00:00 2020 GMT'']"
  using ocsp_successful_guard
      [of "example_result\<lparr>ocsp_response :=
             Some \<lparr>responseStatus = ''unknown'', responderID = ''R'', responses = []\<rparr>\<rparr>"
          "\<lparr>responseStatus = ''unknown'', responderID = ''R'', responses = []\<rparr>"]
    ocsp_successful_guard
      [of "example_result\<lparr>ocsp_response :=
       Some \<lparr>responseStatus = ''successful'', responderID = ''R'',
             responses = [\<lparr>certStatus = ''good'', certID = \<lparr>serialNumber = ''1000''\<rparr>,
                           thisUpdate = ''Jan  5 00:00:00 2020 GMT'',
                           nextUpdate = ''Jan 12 00:00:00 2020 GMT''\<rparr>]\<rparr>\<rparr>"
          "\<lparr>responseStatus = ''successful'', responderID = ''R'',
             responses = [\<lparr>certStatus = ''good'', certID = \<lparr>serialNumber = ''1000''\<rparr>,
                           thisUpdate = ''Jan  5 00:00:00 2020 GMT'',
                           nextUpdate = ''Jan 12 00:00:00 2020 GMT''\<rparr>]\<rparr>"
          "\<lparr>certStatus = ''good'', certID = \<lparr>serialNumber = ''1000''\<rparr>,
                           thisUpdate = ''Jan  5 00:00:00 2020 GMT'',
                           nextUpdate = ''Jan 12 00:00:00 2020 GMT''\<rparr>" "[]"]
  by (simp add: example_defs)

text \<open>
  Claim C6: for a result with an OCSP response whose status is not \<open>SUCCESSFUL\<close>, the
  OCSP section is the single error field carrying the name of the status; the output
  is the same whatever the decoded response holds, so no per-certificate field (cert
  status, serial number, this-update, next-update) reaches it; and when the output is
  produced it ends with the subtitle of the section and that error field.
\<close>

theorem ocsp_error_status_only:
  "ocsp_response r = Some d \<Longrightarrow> ocsp_response_status r \<noteq> SUCCESSFUL \<Longrightarrow>
     ocsp_section r =
       Inr [format_field '''' (''ERROR - OCSP response status is not successful: ''
                                @ enum_name (ocsp_response_status r))]
   \<and> result_to_console_output (r\<lparr>ocsp_response := Some d'\<rparr>) = result_to_console_output r
   \<and> (result_to_console_output r = Inr ls \<longrightarrow>
        (\<exists>before. ls = before @
           [format_subtitle ''OCSP Stapling'',
            format_field '''' (''ERROR - OCSP response status is not successful: ''
                                @ enum_name (ocsp_response_status r))]))"
proof -
  assume d: "ocsp_response r = Some d" and st: "ocsp_response_status r \<noteq> SUCCESSFUL"
  have sec: "ocsp_section r =
       Inr [format_field '''' (''ERROR - OCSP response status is not successful: ''
                                @ enum_name (ocsp_response_status r))]"
    using d st by (simp add: ocsp_section_def ocsp_resp_txt_def)
  have same: "result_to_console_output (r\<lparr>ocsp_response := Some d'\<rparr>) = result_to_console_output r"
    using d st
    by (simp add: result_to_console_output_def ocsp_update ocsp_section_def ocsp_resp_txt_def
        split: sum.splits)
  have last: "\<exists>before. ls = before @
           [format_subtitle ''OCSP Stapling'',
            format_field '''' (''ERROR - OCSP response status is not successful: ''
                                @ enum_name (ocsp_response_status r))]"
    if "result_to_console_output r = Inr ls"
  proof -
    from output_elim [OF that] sec obtain basic symantec where
      "ls = [format_title ''Certificate Information''] @ basic @ trust_and_extensions r symantec
             @ [format_field '''' (''ERROR - OCSP response status is not successful: ''
                                @ enum_name (ocsp_response_status r))]"
      by auto
    then show ?thesis
      by (simp add: trust_and_extensions_def)
  qed
  from sec same last show ?thesis by blast
qed

text \<open>
  With the status \<open>TRY_LATER\<close>: the section and the end of the output, and the same
  output for a response with an entry as for one without.
\<close>

theorem ocsp_error_status_only_witness:
  "ocsp_section (example_result\<lparr>ocsp_response := Some example_ocsp_response,
                                 ocsp_response_status := TRY_LATER\<rparr>)
     = Inr [format_field '''' ''ERROR - OCSP response status is not successful: TRY_LATER'']
   \<and> result_to_console_output
        (example_result\<lparr>ocsp_response :=
            Some \<lparr>responseStatus = ''successful'', responderID = ''R'',
                  responses = [\<lparr>certStatus = ''revoked'', certID = \<lparr>serialNumber = ''1000''\<rparr>,
                                thisUpdate = ''Jan  5 00:00:00 2020 GMT'',
                                nextUpdate = ''Jan 12 00:00:00 2020 GMT''\<rparr>]\<rparr>,
           ocsp_response_status := TRY_LATER\<rparr>)
     = result_to_console_output
        (example_result\<lparr>ocsp_response := Some example_ocsp_response,
                         ocsp_response_status := TRY_LATER\<rparr>)
   \<and> (\<exists>ls before.
        result_to_console_output
          (example_result\<lparr>ocsp_response := Some example_ocsp_response,
                           ocsp_response_status := TRY_LATER\<rparr>) = Inr ls
      \<and> ls = before @
           [format_subtitle ''OCSP Stapling'',
            format_field '''' ''ERROR - OCSP response status is not successful: TRY_LATER''])"
proof -
  let ?r = "example_result\<lparr>ocsp_response := Some example_ocsp_response,
                           ocsp_response_status := TRY_LATER\<rparr>"
  let ?d = "\<lparr>responseStatus = ''successful'', responderID = ''R'',
                  responses = [\<lparr>certStatus = ''revoked'', certID = \<lparr>serialNumber = ''1000''\<rparr>,
                                thisUpdate = ''Jan  5 00:00:00 2020 GMT'',
                                nextUpdate = ''Jan 12 00:00:00 2020 GMT''\<rparr>]\<rparr>"
  have response: "ocsp_response ?r = Some example_ocsp_response"
    and status: "ocsp_response_status ?r \<noteq> SUCCESSFUL"
    and name: "enum_name (ocsp_response_status ?r) = ''TRY_LATER''"
    and update: "?r\<lparr>ocsp_response := Some ?d\<rparr>
                 = example_result\<lparr>ocsp_response := Some ?d, ocsp_response_status := TRY_LATER\<rparr>"
    by (simp_all add: example_result_def)
  obtain ls where ls: "result_to_console_output ?r = Inr ls"
    using output_returns_iff [of ?r] by (auto simp: example_defs)
  from ocsp_error_status_only [OF response status, of ?d ls] name update ls show ?thesis
    by auto
qed

section \<open>The basic certificate text\<close>

text \<open>
  A leaf without the subject-alternative-names extension and without a signature hash
  algorithm: the basic certificate text fails with \<open>AttributeError\<close>, and so does the
  output, against claim C7 as stated.
\<close>

theorem basic_text_fails_without_signature_hash:
  "dns_subject_alternative_names (example_certificate\<lparr>signature_hash_algorithm := None\<rparr>) = None
   \<and> get_basic_certificate_text
        (example_result\<lparr>received_certificate_chain :=
           [example_certificate\<lparr>signature_hash_algorithm := None\<rparr>]\<rparr>) = Inl AttributeError
   \<and> result_to_console_output
        (example_result\<lparr>received_certificate_chain :=
           [example_certificate\<lparr>signature_hash_algorithm := None\<rparr>]\<rparr>) = Inl AttributeError"
  by (simp add: example_defs result_to_console_output_def get_basic_certificate_text_def)

text \<open>
  Claim C7, amended: for a leaf certificate without the subject-alternative-names
  extension, the block of the subject-alternative names does not fail and does not leave
  the field out: it writes the field \<open>DNS Subject Alternative Names:\<close> with the text
  \<open>[]\<close>, the empty list being the marker of the absent extension. When the leaf has a
  signature hash algorithm, the basic certificate text is produced and is the eight
  fixed fields, the fields of the key and this field; and every basic certificate text
  produced for such a leaf holds this field, with no other text under that title.
\<close>

theorem basic_text_marks_absent_san:
  "received_certificate_chain r = c # cs \<Longrightarrow> dns_subject_alternative_names c = None \<Longrightarrow>
     san_text c = Inr [format_field ''DNS Subject Alternative Names:'' ''[]'']
   \<and> (signature_hash_algorithm c = Some algorithm_name \<longrightarrow>
        get_basic_certificate_text r =
          Inr ([format_field ''SHA1 Fingerprint:'' (hexlify (fingerprint_SHA1 c)),
                format_field ''Common Name:'' (get_name_as_short_text (subject c)),
                format_field ''Issuer:'' (get_name_as_short_text (issuer c)),
                format_field ''Serial Number:'' (str_int (serial_number c)),
                format_field ''Not Before:'' (isoformat (not_valid_before c)),
                format_field ''Not After:'' (isoformat (not_valid_after c)),
                format_field ''Signature Algorithm:'' algorithm_name,
                format_field ''Public Key Algorithm:'' (class_name (public_key c))]
               @ key_text (public_key c)
               @ [format_field ''DNS Subject Alternative Names:'' ''[]'']))
   \<and> (\<forall>ls v. get_basic_certificate_text r = Inr ls \<longrightarrow>
          (format_field ''DNS Subject Alternative Names:'' v \<in> set ls \<longleftrightarrow> v = ''[]''))"
  by (auto simp: get_basic_certificate_text_def san_text_def str_list_def
      extract_dns_subject_alternative_names_def key_text_def
      split: public_key.splits option.splits)

text \<open>
  For the example result, whose leaf has no such extension and is signed with SHA-256:
  eleven lines, the last one the field with the text \<open>[]\<close>.
\<close>

theorem basic_text_marks_absent_san_witness:
  "get_basic_certificate_text example_result =
       Inr [format_field ''SHA1 Fingerprint:'' ''2b8f1b57330dbba2d07a6c51f70ee90ddab9ad8e'',
            format_field ''Common Name:'' ''example.com'',
            format_field ''Issuer:'' ''O=Example CA,C=US'',
            format_field ''Serial Number:'' ''4096'',
            format_field ''Not Before:'' ''2020-01-05'',
            format_field ''Not After:'' ''2021-01-05'',
            format_field ''Signature Algorithm:'' ''sha256'',
            format_field ''Public Key Algorithm:'' ''_RSAPublicKey'',
            format_field ''Key Size:'' ''2048'',
            format_field ''Exponent:'' ''65537'',
            format_field ''DNS Subject Alternative Names:'' ''[]'']"
proof -
  have chain: "received_certificate_chain example_result = example_certificate # []"
    and absent: "dns_subject_alternative_names example_certificate = None"
    and signed: "signature_hash_algorithm example_certificate = Some ''sha256''"
    by (simp_all add: example_defs)
  from basic_text_marks_absent_san [OF chain absent, of "''sha256''"] signed
  have "get_basic_certificate_text example_result =
          Inr ([format_field ''SHA1 Fingerprint:'' (hexlify (fingerprint_SHA1 example_certificate)),
                format_field ''Common Name:'' (get_name_as_short_text (subject example_certificate)),
                format_field ''Issuer:'' (get_name_as_short_text (issuer example_certificate)),
                format_field ''Serial Number:'' (str_int (serial_number example_certificate)),
                format_field ''Not Before:'' (isoformat (not_valid_before example_certificate)),
                format_field ''Not After:'' (isoformat (not_valid_after example_certificate)),
                format_field ''Signature Algorithm:'' ''sha256'',
                format_field ''Public Key Algorithm:'' (class_name (public_key example_certificate))]
               @ key_text (public_key example_certificate)
               @ [format_field ''DNS Subject Alternative Names:'' ''[]''])"
    by blast
  then show ?thesis
    by (simp add: example_certificate_def key_text_def hexlify_def digit_char_def
        get_name_as_short_text_def get_common_names_def str_int_def str_nat.simps isoformat_def
        zfill_def)
qed

section \<open>The trust section\<close>

text \<open>
  Claim C9: when the legacy-anchor attribute holds a value other than \<open>None\<close>, \<open>True\<close>
  and \<open>False\<close>, the check raises \<open>RuntimeError\<close> and the output is never produced: the
  output fails with that error once the basic certificate text has been produced, that
  is for every result whose leaf has a signature hash algorithm, and with the error of
  the basic certificate text otherwise. For a value of the domain the check does not
  raise, and every produced output holds the field \<open>Symantec 2018 Deprecation:\<close> with the
  text of that value and with no other text; the three texts differ from one another.
\<close>

theorem legacy_anchor_out_of_domain_raises:
  "(v \<notin> {PyNone, PyBool True, PyBool False} \<longrightarrow>
       symantec_str (r\<lparr>verified_chain_has_legacy_symantec_anchor := v\<rparr>)
         = Inl (RuntimeError ''Should never happen'')
     \<and> result_to_console_output (r\<lparr>verified_chain_has_legacy_symantec_anchor := v\<rparr>)
         = (case get_basic_certificate_text r of
              Inl e \<Rightarrow> Inl e
            | Inr basic \<Rightarrow> Inl (RuntimeError ''Should never happen''))
     \<and> (received_certificate_chain r \<noteq> []
        \<and> signature_hash_algorithm (hd (received_certificate_chain r)) \<noteq> None \<longrightarrow>
          result_to_console_output (r\<lparr>verified_chain_has_legacy_symantec_anchor := v\<rparr>)
            = Inl (RuntimeError ''Should never happen'')))
   \<and> (\<forall>ls t. result_to_console_output (r\<lparr>verified_chain_has_legacy_symantec_anchor := PyNone\<rparr>)
                = Inr ls \<longrightarrow>
         (format_field ''Symantec 2018 Deprecation:'' t \<in> set ls
            \<longleftrightarrow> t = NO_VERIFIED_CHAIN_ERROR_TXT))
   \<and> (\<forall>ls t. result_to_console_output (r\<lparr>verified_chain_has_legacy_symantec_anchor := PyBool True\<rparr>)
                = Inr ls \<longrightarrow>
         (format_field ''Symantec 2018 Deprecation:'' t \<in> set ls
            \<longleftrightarrow> t = ''WARNING: Certificate distrusted by Google and Mozilla since 2018''))
   \<and> (\<forall>ls t. result_to_console_output (r\<lparr>verified_chain_has_legacy_symantec_anchor := PyBool False\<rparr>)
                = Inr ls \<longrightarrow>
         (format_field ''Symantec 2018 Deprecation:'' t \<in> set ls
            \<longleftrightarrow> t = ''OK - Not a Symantec-issued certificate''))
   \<and> (v \<in> {PyNone, PyBool True, PyBool False} \<longrightarrow>
        ((\<exists>ls. result_to_console_output (r\<lparr>verified_chain_has_legacy_symantec_anchor := v\<rparr>) = Inr ls)
         \<longleftrightarrow> (\<exists>basic. get_basic_certificate_text r = Inr basic)
             \<and> (\<exists>ocsp. ocsp_section r = Inr ocsp)))
   \<and> symantec_str (r\<lparr>verified_chain_has_legacy_symantec_anchor := PyNone\<rparr>)
       = Inr NO_VERIFIED_CHAIN_ERROR_TXT
   \<and> symantec_str (r\<lparr>verified_chain_has_legacy_symantec_anchor := PyBool True\<rparr>)
       = Inr ''WARNING: Certificate distrusted by Google and Mozilla since 2018''
   \<and> symantec_str (r\<lparr>verified_chain_has_legacy_symantec_anchor := PyBool False\<rparr>)
       = Inr ''OK - Not a Symantec-issued certificate''
   \<and> distinct [NO_VERIFIED_CHAIN_ERROR_TXT,
                ''WARNING: Certificate distrusted by Google and Mozilla since 2018'',
                ''OK - Not a Symantec-issued certificate'']"
proof -
  let ?set = "\<lambda>x. r\<lparr>verified_chain_has_legacy_symantec_anchor := x\<rparr>"
  have basic: "get_basic_certificate_text (?set x) = get_basic_certificate_text r" for x
    by (simp add: get_basic_certificate_text_def)
  have ocsp: "ocsp_section (?set x) = ocsp_section r" for x
    by (simp add: ocsp_section_def ocsp_resp_txt_def split: option.splits)
  have raise: "symantec_str (?set v) = Inl (RuntimeError ''Should never happen'')"
    if "v \<notin> {PyNone, PyBool True, PyBool False}"
    using that by (simp add: symantec_str_def)
  have out: "result_to_console_output (?set v)
         = (case get_basic_certificate_text r of
              Inl e \<Rightarrow> Inl e
            | Inr basic \<Rightarrow> Inl (RuntimeError ''Should never happen''))"
    if "v \<notin> {PyNone, PyBool True, PyBool False}"
    using raise [OF that] basic [of v]
    by (simp add: result_to_console_output_def split: sum.splits)
  have out': "result_to_console_output (?set v) = Inl (RuntimeError ''Should never happen'')"
    if "v \<notin> {PyNone, PyBool True, PyBool False}"
      and "received_certificate_chain r \<noteq> []
        \<and> signature_hash_algorithm (hd (received_certificate_chain r)) \<noteq> None"
  proof -
    from that(2) basic_returns_iff [of r] obtain b where "get_basic_certificate_text r = Inr b"
      by blast
    with out [OF that(1)] show ?thesis
      by simp
  qed
  have dom: "symantec_str (?set PyNone) = Inr NO_VERIFIED_CHAIN_ERROR_TXT"
    "symantec_str (?set (PyBool True))
       = Inr ''WARNING: Certificate distrusted by Google and Mozilla since 2018''"
    "symantec_str (?set (PyBool False)) = Inr ''OK - Not a Symantec-issued certificate''"
    by (simp_all add: symantec_str_def)
  have field: "format_field ''Symantec 2018 Deprecation:'' t \<in> set ls \<longleftrightarrow> t = s"
    if "result_to_console_output (?set x) = Inr ls" and "symantec_str (?set x) = Inr s"
    for x ls t s
    using symantec_field [OF that(1), of t] that(2) by auto
  have ret: "(\<exists>ls. result_to_console_output (?set v) = Inr ls)
         \<longleftrightarrow> (\<exists>basic. get_basic_certificate_text r = Inr basic) \<and> (\<exists>ocsp. ocsp_section r = Inr ocsp)"
    if "v \<in> {PyNone, PyBool True, PyBool False}"
  proof -
    from that dom obtain s where "symantec_str (?set v) = Inr s"
      by auto
    then show ?thesis
      using basic [of v] ocsp [of v]
      by (auto simp: result_to_console_output_def split: sum.splits)
  qed
  have dist: "distinct [NO_VERIFIED_CHAIN_ERROR_TXT,
                ''WARNING: Certificate distrusted by Google and Mozilla since 2018'',
                ''OK - Not a Symantec-issued certificate'']"
    by (simp add: NO_VERIFIED_CHAIN_ERROR_TXT_def)
  have c1: "v \<notin> {PyNone, PyBool True, PyBool False} \<longrightarrow>
       symantec_str (?set v) = Inl (RuntimeError ''Should never happen'')
     \<and> result_to_console_output (?set v)
         = (case get_basic_certificate_text r of
              Inl e \<Rightarrow> Inl e
            | Inr basic \<Rightarrow> Inl (RuntimeError ''Should never happen''))
     \<and> (received_certificate_chain r \<noteq> []
        \<and> signature_hash_algorithm (hd (received_certificate_chain r)) \<noteq> None \<longrightarrow>
          result_to_console_output (?set v) = Inl (RuntimeError ''Should never happen''))"
    using raise out out' by (intro impI conjI) assumption+
  have c2: "\<forall>ls t. result_to_console_output (?set PyNone) = Inr ls \<longrightarrow>
         (format_field ''Symantec 2018 Deprecation:'' t \<in> set ls
            \<longleftrightarrow> t = NO_VERIFIED_CHAIN_ERROR_TXT)"
    by (intro allI impI) (rule field [OF _ dom(1)])
  have c3: "\<forall>ls t. result_to_console_output (?set (PyBool True)) = Inr ls \<longrightarrow>
         (format_field ''Symantec 2018 Deprecation:'' t \<in> set ls
            \<longleftrightarrow> t = ''WARNING: Certificate distrusted by Google and Mozilla since 2018'')"
    by (intro allI impI) (rule field [OF _ dom(2)])
  have c4: "\<forall>ls t. result_to_console_output (?set (PyBool False)) = Inr ls \<longrightarrow>
         (format_field ''Symantec 2018 Deprecation:'' t \<in> set ls
            \<longleftrightarrow> t = ''OK - Not a Symantec-issued certificate'')"
    by (intro allI impI) (rule field [OF _ dom(3)])
  have c5: "v \<in> {PyNone, PyBool True, PyBool False} \<longrightarrow>
        ((\<exists>ls. result_to_console_output (?set v) = Inr ls)
         \<longleftrightarrow> (\<exists>basic. get_basic_certificate_text r = Inr basic)
             \<and> (\<exists>ocsp. ocsp_section r = Inr ocsp))"
    using ret by (intro impI)
  show ?thesis
    by (intro conjI c1 c2 c3 c4 c5 dom dist)
qed

text \<open>
  With the integer 1, which is not the object \<open>True\<close>, and with the three values of the
  domain, for the example result.
\<close>

theorem legacy_anchor_out_of_domain_raises_witness:
  "PyInt 1 \<notin> {PyNone, PyBool True, PyBool False}
   \<and> result_to_console_output (example_result\<lparr>verified_chain_has_legacy_symantec_anchor := PyInt 1\<rparr>)
       = Inl (RuntimeError ''Should never happen'')
   \<and> (\<exists>ls. result_to_console_output
              (example_result\<lparr>verified_chain_has_legacy_symantec_anchor := PyNone\<rparr>) = Inr ls
        \<and> format_field ''Symantec 2018 Deprecation:''
             ''ERROR - Could not build verified chain (certificate untrusted?)'' \<in> set ls)
   \<and> (\<exists>ls. result_to_console_output
              (example_result\<lparr>verified_chain_has_legacy_symantec_anchor := PyBool True\<rparr>) = Inr ls
        \<and> format_field ''Symantec 2018 Deprecation:''
             ''WARNING: Certificate distrusted by Google and Mozilla since 2018'' \<in> set ls
        \<and> format_field ''Symantec 2018 Deprecation:''
             ''ERROR - Could not build verified chain (certificate untrusted?)'' \<notin> set ls)
   \<and> (\<exists>ls. result_to_console_output
              (example_result\<lparr>verified_chain_has_legacy_symantec_anchor := PyBool False\<rparr>) = Inr ls
        \<and> format_field ''Symantec 2018 Deprecation:''
             ''OK - Not a Symantec-issued certificate'' \<in> set ls)"
proof -
  let ?set = "\<lambda>x. example_result\<lparr>verified_chain_has_legacy_symantec_anchor := x\<rparr>"
  have leaf: "received_certificate_chain example_result \<noteq> []
      \<and> signature_hash_algorithm (hd (received_certificate_chain example_result)) \<noteq> None"
    by (simp add: example_defs)
  have parts: "(\<exists>basic. get_basic_certificate_text example_result = Inr basic)
      \<and> (\<exists>ocsp. ocsp_section example_result = Inr ocsp)"
    using basic_returns_iff [of example_result] leaf
    by (simp add: ocsp_section_def example_result_def)
  have other: "PyInt 1 \<notin> {PyNone, PyBool True, PyBool False}"
    by simp
  note fact = legacy_anchor_out_of_domain_raises [of _ example_result]
  note raises = fact [THEN conjunct1]
  note none = fact [THEN conjunct2, THEN conjunct1, rule_format]
  note true = fact [THEN conjunct2, THEN conjunct2, THEN conjunct1, rule_format]
  note false = fact [THEN conjunct2, THEN conjunct2, THEN conjunct2, THEN conjunct1, rule_format]
  note returns = fact [THEN conjunct2, THEN conjunct2, THEN conjunct2, THEN conjunct2,
      THEN conjunct1]
  from raises [of "PyInt 1"] other leaf
  have a: "result_to_console_output (?set (PyInt 1)) = Inl (RuntimeError ''Should never happen'')"
    by blast
  from returns [of PyNone] parts
  obtain l1 where l1: "result_to_console_output (?set PyNone) = Inr l1"
    by auto
  from returns [of "PyBool True"] parts
  obtain l2 where l2: "result_to_console_output (?set (PyBool True)) = Inr l2"
    by auto
  from returns [of "PyBool False"] parts
  obtain l3 where l3: "result_to_console_output (?set (PyBool False)) = Inr l3"
    by auto
  have b: "format_field ''Symantec 2018 Deprecation:''
             ''ERROR - Could not build verified chain (certificate untrusted?)'' \<in> set l1"
    using none [OF l1] by (simp add: NO_VERIFIED_CHAIN_ERROR_TXT_def)
  have c: "format_field ''Symantec 2018 Deprecation:''
             ''WARNING: Certificate distrusted by Google and Mozilla since 2018'' \<in> set l2"
    and c': "format_field ''Symantec 2018 Deprecation:''
             ''ERROR - Could not build verified chain (certificate untrusted?)'' \<notin> set l2"
    using true [OF l2] by simp_all
  have d: "format_field ''Symantec 2018 Deprecation:''
             ''OK - Not a Symantec-issued certificate'' \<in> set l3"
    using false [OF l3] by simp
  show ?thesis
    using other a l1 l2 l3 b c c' d by (intro conjI exI [of _ l1] exI [of _ l2] exI [of _ l3])
qed

text \<open>
  Claim C3: for a result filled as the spec has it (\<open>unknown_without_verified_chain\<close>) in
  which no path validation succeeded, the legacy-anchor check, the anchor-inclusion
  check and the SHA-1 check all give the text for a missing verified chain; a produced
  output holds the three fields with this text; and this text is none of the pass or
  fail texts of the three checks.
\<close>

theorem no_verified_chain_checks_unknown:
  assumes "unknown_without_verified_chain r"
    and "\<forall>p \<in> set (path_validation_results r). \<not> was_validation_successful p"
  shows "symantec_str r = Inr NO_VERIFIED_CHAIN_ERROR_TXT
    \<and> chain_with_anchor_txt r = NO_VERIFIED_CHAIN_ERROR_TXT
    \<and> sha1_text r = NO_VERIFIED_CHAIN_ERROR_TXT
    \<and> (\<forall>ls. result_to_console_output r = Inr ls \<longrightarrow>
          format_field ''Symantec 2018 Deprecation:'' NO_VERIFIED_CHAIN_ERROR_TXT \<in> set ls
        \<and> format_field ''Received Chain Contains Anchor:'' NO_VERIFIED_CHAIN_ERROR_TXT \<in> set ls
        \<and> format_field ''Verified Chain contains SHA1:'' NO_VERIFIED_CHAIN_ERROR_TXT \<in> set ls)
    \<and> NO_VERIFIED_CHAIN_ERROR_TXT \<notin>
          {''WARNING: Certificate distrusted by Google and Mozilla since 2018'',
           ''OK - Not a Symantec-issued certificate'',
           ''OK - Anchor certificate not sent'',
           ''WARNING - Received certificate chain contains the anchor certificate'',
           ''OK - No SHA1-signed certificate in the verified certificate chain'',
           ''INSECURE - SHA1-signed certificate in the verified certificate chain''}"
proof -
  from assms(2) have "\<not> list_ex was_validation_successful (path_validation_results r)"
    by (simp add: list_ex_iff)
  with assms(1) have none: "\<not> has_verified_chain r"
    and legacy: "verified_chain_has_legacy_symantec_anchor r = PyNone"
    by (simp_all add: unknown_without_verified_chain_def)
  from legacy have sym: "symantec_str r = Inr NO_VERIFIED_CHAIN_ERROR_TXT"
    by (simp add: symantec_str_def)
  from none have anchor: "chain_with_anchor_txt r = NO_VERIFIED_CHAIN_ERROR_TXT"
    and sha1: "sha1_text r = NO_VERIFIED_CHAIN_ERROR_TXT"
    by (simp_all add: chain_with_anchor_txt_def sha1_text_def)
  have lines: "format_field ''Symantec 2018 Deprecation:'' NO_VERIFIED_CHAIN_ERROR_TXT \<in> set ls
        \<and> format_field ''Received Chain Contains Anchor:'' NO_VERIFIED_CHAIN_ERROR_TXT \<in> set ls
        \<and> format_field ''Verified Chain contains SHA1:'' NO_VERIFIED_CHAIN_ERROR_TXT \<in> set ls"
    if "result_to_console_output r = Inr ls" for ls
  proof -
    from output_elim [OF that] sym obtain basic ocsp where
      "ls = [format_title ''Certificate Information''] @ basic
            @ trust_and_extensions r NO_VERIFIED_CHAIN_ERROR_TXT @ ocsp"
      by auto
    with anchor sha1 show ?thesis
      by (simp add: trust_and_extensions_def)
  qed
  have apart: "NO_VERIFIED_CHAIN_ERROR_TXT \<notin>
          {''WARNING: Certificate distrusted by Google and Mozilla since 2018'',
           ''OK - Not a Symantec-issued certificate'',
           ''OK - Anchor certificate not sent'',
           ''WARNING - Received certificate chain contains the anchor certificate'',
           ''OK - No SHA1-signed certificate in the verified certificate chain'',
           ''INSECURE - SHA1-signed certificate in the verified certificate chain''}"
    by (simp add: NO_VERIFIED_CHAIN_ERROR_TXT_def)
  from sym anchor sha1 lines apart show ?thesis by blast
qed

text \<open>The example result: its only path validation failed and it has no verified chain.\<close>

theorem no_verified_chain_checks_unknown_witness:
  "\<not> list_ex was_validation_successful (path_validation_results example_result)
   \<and> verified_certificate_chain example_result = None
   \<and> (\<exists>ls. result_to_console_output example_result = Inr ls
        \<and> format_field ''Symantec 2018 Deprecation:''
             ''ERROR - Could not build verified chain (certificate untrusted?)'' \<in> set ls
        \<and> format_field ''Received Chain Contains Anchor:''
             ''ERROR - Could not build verified chain (certificate untrusted?)'' \<in> set ls
        \<and> format_field ''Verified Chain contains SHA1:''
             ''ERROR - Could not build verified chain (certificate untrusted?)'' \<in> set ls)"
proof -
  have inv: "unknown_without_verified_chain example_result"
    by (simp add: unknown_without_verified_chain_def has_verified_chain_def example_defs)
  have fails: "\<forall>p \<in> set (path_validation_results example_result). \<not> was_validation_successful p"
    by (simp add: example_defs)
  obtain ls where ls: "result_to_console_output example_result = Inr ls"
    using output_returns_iff [of example_result] by (auto simp: example_defs)
  have "\<not> list_ex was_validation_successful (path_validation_results example_result)"
    and "verified_certificate_chain example_result = None"
    by (simp_all add: example_defs)
  with no_verified_chain_checks_unknown [OF inv fails] ls show ?thesis
    by (auto simp: NO_VERIFIED_CHAIN_ERROR_TXT_def)
qed

text \<open>
  Claim C5: the text of the order check is \<open>OK - Order is valid\<close> when the order flag is
  true and \<open>FAILED - Certificate chain out of order!\<close> when it is false, whatever the path
  validation results and the verified chain are (all failures and no chain included).
  Every produced output holds the field \<open>Received Chain Order:\<close> with this text and with
  no other, and whether the output is produced does not depend on the path validation
  results or on the verified chain. The flag, set as the spec has it
  (\<open>with_chain_order\<close>), is computed from the received chain alone, and is rendered in
  the same way.
\<close>

theorem chain_order_independent_of_trust:
  "chain_order_txt (r\<lparr>path_validation_results := ps, verified_certificate_chain := vc\<rparr>)
     = (if received_chain_has_valid_order r then ''OK - Order is valid''
        else ''FAILED - Certificate chain out of order!'')
   \<and> (\<forall>ls v. result_to_console_output
                 (r\<lparr>path_validation_results := ps, verified_certificate_chain := vc\<rparr>) = Inr ls
          \<longrightarrow> (format_field ''Received Chain Order:'' v \<in> set ls
                \<longleftrightarrow> v = (if received_chain_has_valid_order r then ''OK - Order is valid''
                         else ''FAILED - Certificate chain out of order!'')))
   \<and> ((\<exists>ls. result_to_console_output
               (r\<lparr>path_validation_results := ps, verified_certificate_chain := vc\<rparr>) = Inr ls)
        \<longleftrightarrow> (\<exists>ls. result_to_console_output r = Inr ls))
   \<and> ((\<exists>ls. result_to_console_output
               (r\<lparr>path_validation_results := ps, verified_certificate_chain := vc\<rparr>) = Inr ls)
        \<longleftrightarrow> received_certificate_chain r \<noteq> []
          \<and> signature_hash_algorithm (hd (received_certificate_chain r)) \<noteq> None
          \<and> verified_chain_has_legacy_symantec_anchor r \<in> {PyNone, PyBool True, PyBool False}
          \<and> (\<forall>d. ocsp_response r = Some d \<longrightarrow> ocsp_response_status r = SUCCESSFUL \<longrightarrow>
                 str_contains ''successful'' (responseStatus d) \<longrightarrow> responses d \<noteq> []))
   \<and> received_chain_has_valid_order
        (with_chain_order (r\<lparr>path_validation_results := ps, verified_certificate_chain := vc\<rparr>))
       = received_chain_in_order (received_certificate_chain r)
   \<and> (\<forall>ls v. result_to_console_output
                 (with_chain_order
                    (r\<lparr>path_validation_results := ps, verified_certificate_chain := vc\<rparr>)) = Inr ls
          \<longrightarrow> (format_field ''Received Chain Order:'' v \<in> set ls
                \<longleftrightarrow> v = (if received_chain_in_order (received_certificate_chain r)
                         then ''OK - Order is valid''
                         else ''FAILED - Certificate chain out of order!'')))"
proof -
  let ?r = "r\<lparr>path_validation_results := ps, verified_certificate_chain := vc\<rparr>"
  have order: "chain_order_txt ?r
     = (if received_chain_has_valid_order r then ''OK - Order is valid''
        else ''FAILED - Certificate chain out of order!'')"
    by (simp add: chain_order_txt_def)
  have field: "format_field ''Received Chain Order:'' v \<in> set ls
                \<longleftrightarrow> v = (if received_chain_has_valid_order r then ''OK - Order is valid''
                         else ''FAILED - Certificate chain out of order!'')"
    if "result_to_console_output ?r = Inr ls" for ls v
    using order_field [OF that, of v] order by simp
  have ret: "(\<exists>ls. result_to_console_output ?r = Inr ls)
        \<longleftrightarrow> received_certificate_chain r \<noteq> []
          \<and> signature_hash_algorithm (hd (received_certificate_chain r)) \<noteq> None
          \<and> verified_chain_has_legacy_symantec_anchor r \<in> {PyNone, PyBool True, PyBool False}
          \<and> (\<forall>d. ocsp_response r = Some d \<longrightarrow> ocsp_response_status r = SUCCESSFUL \<longrightarrow>
                 str_contains ''successful'' (responseStatus d) \<longrightarrow> responses d \<noteq> [])"
    using output_returns_iff [of ?r] by simp
  have same: "(\<exists>ls. result_to_console_output ?r = Inr ls)
        \<longleftrightarrow> (\<exists>ls. result_to_console_output r = Inr ls)"
    using ret output_returns_iff [of r] by simp
  have flag: "received_chain_has_valid_order (with_chain_order ?r)
       = received_chain_in_order (received_certificate_chain r)"
    by (simp add: with_chain_order_def)
  have computed: "format_field ''Received Chain Order:'' v \<in> set ls
                \<longleftrightarrow> v = (if received_chain_in_order (received_certificate_chain r)
                         then ''OK - Order is valid''
                         else ''FAILED - Certificate chain out of order!'')"
    if "result_to_console_output (with_chain_order ?r) = Inr ls" for ls v
    using order_field [OF that, of v] flag by (simp add: chain_order_txt_def)
  from order field same ret flag computed show ?thesis
    by blast
qed

text \<open>
  A received chain of three certificates, each issued by the next, in a result whose two
  path validations failed and that has no verified chain: the flag computed is true and
  the output reports a valid order. With the last two certificates exchanged, the
  output reports the chain out of order.
\<close>

theorem chain_order_independent_of_trust_witness:
  "\<not> was_validation_successful example_path_result
   \<and> received_chain_in_order [example_certificate, example_intermediate, example_root]
   \<and> (\<exists>ls. result_to_console_output
         (with_chain_order
            (example_result
               \<lparr>received_certificate_chain :=
                  [example_certificate, example_intermediate, example_root],
                path_validation_results := [example_path_result, example_path_result],
                verified_certificate_chain := None\<rparr>)) = Inr ls
        \<and> format_field ''Received Chain Order:'' ''OK - Order is valid'' \<in> set ls
        \<and> format_field ''Received Chain Order:'' ''FAILED - Certificate chain out of order!''
            \<notin> set ls)
   \<and> \<not> received_chain_in_order [example_certificate, example_root, example_intermediate]
   \<and> (\<exists>ls. result_to_console_output
         (with_chain_order
            (example_result
               \<lparr>received_certificate_chain :=
                  [example_certificate, example_root, example_intermediate],
                path_validation_results := [example_path_result, example_path_result],
                verified_certificate_chain := None\<rparr>)) = Inr ls
        \<and> format_field ''Received Chain Order:'' ''FAILED - Certificate chain out of order!''
            \<in> set ls)"
proof -
  let ?good = "[example_certificate, example_intermediate, example_root]"
  let ?bad = "[example_certificate, example_root, example_intermediate]"
  let ?ps = "[example_path_result, example_path_result]"
  let ?of = "\<lambda>chain. example_result\<lparr>received_certificate_chain := chain\<rparr>"
  let ?r = "\<lambda>chain. with_chain_order
              (example_result\<lparr>received_certificate_chain := chain, path_validation_results := ?ps,
                              verified_certificate_chain := None\<rparr>)"
  have failed: "\<not> was_validation_successful example_path_result"
    by (simp add: example_path_result_def)
  have good: "received_chain_in_order ?good" and bad: "\<not> received_chain_in_order ?bad"
    by (simp_all add: example_certificate_def example_intermediate_def example_root_def)
  have chain: "received_certificate_chain (?of chain) = chain" for chain
    by simp
  have update: "(?of chain)\<lparr>path_validation_results := ?ps, verified_certificate_chain := None\<rparr>
      = example_result\<lparr>received_certificate_chain := chain, path_validation_results := ?ps,
                       verified_certificate_chain := None\<rparr>" for chain
    by simp
  have returns: "\<exists>ls. result_to_console_output (?r chain) = Inr ls"
    if "chain \<noteq> []" and "hd chain = example_certificate" for chain
    using output_returns_iff [of "?r chain"] that
    by (simp add: with_chain_order_def example_result_def example_certificate_def)
  from returns [of ?good] obtain l1 where l1: "result_to_console_output (?r ?good) = Inr l1"
    by auto
  from returns [of ?bad] obtain l2 where l2: "result_to_console_output (?r ?bad) = Inr l2"
    by auto
  note fact = chain_order_independent_of_trust [where ps = ?ps and vc = None, unfolded update chain]
  from fact [of "?of ?good"] l1 good
  have a: "format_field ''Received Chain Order:'' ''OK - Order is valid'' \<in> set l1"
    and a': "format_field ''Received Chain Order:'' ''FAILED - Certificate chain out of order!''
              \<notin> set l1"
    by auto
  from fact [of "?of ?bad"] l2 bad
  have b: "format_field ''Received Chain Order:'' ''FAILED - Certificate chain out of order!''
              \<in> set l2"
    by auto
  from failed good bad l1 l2 a a' b show ?thesis
    by blast
qed

text \<open>
  Claim C4: for a successful path validation result, the text of the store is
  \<open>OK - Certificate is trusted, Extended Validation\<close> exactly when both the leaf is
  flagged as EV and the trust store has EV OIDs; when either is false it is
  \<open>OK - Certificate is trusted\<close>, without the annotation. A produced output holds the
  field of every store of the result with this text.
\<close>

theorem path_txt_extended_validation:
  "was_validation_successful p \<Longrightarrow>
     (path_txt r p = ''OK - Certificate is trusted, Extended Validation''
        \<longleftrightarrow> leaf_certificate_is_ev r \<and> ev_oids (trust_store p))
   \<and> (\<not> (leaf_certificate_is_ev r \<and> ev_oids (trust_store p))
        \<longrightarrow> path_txt r p = ''OK - Certificate is trusted'')
   \<and> (p \<in> set (path_validation_results r) \<longrightarrow> result_to_console_output r = Inr ls \<longrightarrow>
        format_field (TRUST_FORMAT (name (trust_store p)) (version (trust_store p)))
          (path_txt r p) \<in> set ls)"
proof -
  assume ok: "was_validation_successful p"
  have "p \<in> set (path_validation_results r) \<Longrightarrow> result_to_console_output r = Inr ls \<Longrightarrow>
        path_line r p \<in> set ls"
    by (drule output_elim) (auto simp: trust_and_extensions_def)
  with ok show ?thesis
    by (auto simp: path_txt_def path_line_def)
qed

text \<open>
  A successful validation against the example store: with an EV leaf, with a leaf that
  is not EV, and with an EV leaf and a store without EV OIDs; and the field of the store
  in the output in the first case.
\<close>

theorem path_txt_extended_validation_witness:
  "path_txt (example_result\<lparr>leaf_certificate_is_ev := True\<rparr>)
            (example_path_result\<lparr>was_validation_successful := True\<rparr>)
     = ''OK - Certificate is trusted, Extended Validation''
   \<and> path_txt example_result (example_path_result\<lparr>was_validation_successful := True\<rparr>)
     = ''OK - Certificate is trusted''
   \<and> path_txt (example_result\<lparr>leaf_certificate_is_ev := True\<rparr>)
        (example_path_result\<lparr>was_validation_successful := True,
           trust_store := \<lparr>name = ''Custom'', version = ''1'', ev_oids = False\<rparr>\<rparr>)
     = ''OK - Certificate is trusted''
   \<and> (\<exists>ls. result_to_console_output
         (example_result\<lparr>leaf_certificate_is_ev := True,
            path_validation_results := [example_path_result\<lparr>was_validation_successful := True\<rparr>]\<rparr>)
         = Inr ls
       \<and> format_field ''Mozilla CA Store (1):''
           ''OK - Certificate is trusted, Extended Validation'' \<in> set ls)"
proof -
  let ?p = "example_path_result\<lparr>was_validation_successful := True\<rparr>"
  let ?q = "example_path_result\<lparr>was_validation_successful := True,
              trust_store := \<lparr>name = ''Custom'', version = ''1'', ev_oids = False\<rparr>\<rparr>"
  let ?r = "example_result\<lparr>leaf_certificate_is_ev := True\<rparr>"
  let ?s = "example_result\<lparr>leaf_certificate_is_ev := True, path_validation_results := [?p]\<rparr>"
  have p: "was_validation_successful ?p" and q: "was_validation_successful ?q"
    by simp_all
  have a: "path_txt ?r ?p = ''OK - Certificate is trusted, Extended Validation''"
    using path_txt_extended_validation [OF p, of ?r] by (simp add: example_defs)
  have b: "path_txt example_result ?p = ''OK - Certificate is trusted''"
    using path_txt_extended_validation [OF p, of example_result] by (simp add: example_defs)
  have c: "path_txt ?r ?q = ''OK - Certificate is trusted''"
    using path_txt_extended_validation [OF q, of ?r] by (simp add: example_defs)
  obtain ls where ls: "result_to_console_output ?s = Inr ls"
    using output_returns_iff [of ?s] by (auto simp: example_defs)
  have "path_txt ?s ?p = ''OK - Certificate is trusted, Extended Validation''"
    using path_txt_extended_validation [OF p, of ?s] by (simp add: example_defs)
  moreover have "TRUST_FORMAT (name (trust_store ?p)) (version (trust_store ?p))
                 = ''Mozilla CA Store (1):''"
    by (simp add: TRUST_FORMAT_def example_defs)
  ultimately have "format_field ''Mozilla CA Store (1):''
           ''OK - Certificate is trusted, Extended Validation'' \<in> set ls"
    using path_txt_extended_validation [OF p, of ?s ls] ls by (simp add: example_defs)
  with a b c ls show ?thesis by blast
qed

section \<open>Equality, hashing and names of the Certificate class\<close>

text \<open>
  Claim C8: two instances of \<open>Certificate\<close> compare equal exactly when their PEM
  encodings are the same text (and unequal otherwise; an object of another class is
  never equal); equal instances have the same hash; and replacing the text form, the
  dict form, the fingerprint and the pin of either instance changes neither the
  comparison nor the hash.
\<close>

theorem Certificate_eq_hash_by_pem:
  "(Certificate_eq c1 (CertificateObject c2) \<longleftrightarrow> as_pem c1 = as_pem c2)
   \<and> (Certificate_ne c1 (CertificateObject c2) \<longleftrightarrow> as_pem c1 \<noteq> as_pem c2)
   \<and> \<not> Certificate_eq c1 (OtherObject v)
   \<and> (Certificate_eq c1 (CertificateObject c2) \<longrightarrow>
        Certificate_hash py_hash c1 = Certificate_hash py_hash c2)
   \<and> Certificate_eq (c1\<lparr>as_text := t, as_dict := d, sha1_fingerprint := f, hpkp_pin := p\<rparr>)
        (CertificateObject c2) = Certificate_eq c1 (CertificateObject c2)
   \<and> Certificate_eq c1
        (CertificateObject (c2\<lparr>as_text := t, as_dict := d, sha1_fingerprint := f, hpkp_pin := p\<rparr>))
        = Certificate_eq c1 (CertificateObject c2)
   \<and> Certificate_hash py_hash (c1\<lparr>as_text := t, as_dict := d, sha1_fingerprint := f, hpkp_pin := p\<rparr>)
        = Certificate_hash py_hash c1"
  by (simp add: Certificate_eq_def Certificate_ne_def Certificate_hash_def)

text \<open>
  Two instances with the same PEM text and different derived attributes are equal and
  have the same hash (the hash here being the length of the text); two instances that
  differ in the PEM text only are not equal.
\<close>

theorem Certificate_eq_hash_by_pem_witness:
  "Certificate_eq
     \<lparr>as_pem = ''PEM-A'', as_text = ''text 1'', as_dict = [], sha1_fingerprint = ''f1'',
      hpkp_pin = ''p1''\<rparr>
     (CertificateObject
        \<lparr>as_pem = ''PEM-A'', as_text = ''text 2'', as_dict = [(''subject'', [])],
         sha1_fingerprint = ''f2'', hpkp_pin = ''p2''\<rparr>)
   \<and> Certificate_hash (\<lambda>s. int (length s))
        \<lparr>as_pem = ''PEM-A'', as_text = ''text 1'', as_dict = [], sha1_fingerprint = ''f1'',
         hpkp_pin = ''p1''\<rparr>
     = Certificate_hash (\<lambda>s. int (length s))
        \<lparr>as_pem = ''PEM-A'', as_text = ''text 2'', as_dict = [(''subject'', [])],
         sha1_fingerprint = ''f2'', hpkp_pin = ''p2''\<rparr>
   \<and> \<not> Certificate_eq
     \<lparr>as_pem = ''PEM-A'', as_text = ''text 1'', as_dict = [], sha1_fingerprint = ''f1'',
      hpkp_pin = ''p1''\<rparr>
     (CertificateObject
        \<lparr>as_pem = ''PEM-B'', as_text = ''text 1'', as_dict = [], sha1_fingerprint = ''f1'',
         hpkp_pin = ''p1''\<rparr>)"
  using Certificate_eq_hash_by_pem
    [of "\<lparr>as_pem = ''PEM-A'', as_text = ''text 1'', as_dict = [], sha1_fingerprint = ''f1'',
          hpkp_pin = ''p1''\<rparr>"
        "\<lparr>as_pem = ''PEM-A'', as_text = ''text 2'', as_dict = [(''subject'', [])],
         sha1_fingerprint = ''f2'', hpkp_pin = ''p2''\<rparr>" _ "\<lambda>s. int (length s)"]
    Certificate_eq_hash_by_pem
    [of "\<lparr>as_pem = ''PEM-A'', as_text = ''text 1'', as_dict = [], sha1_fingerprint = ''f1'',
          hpkp_pin = ''p1''\<rparr>"
        "\<lparr>as_pem = ''PEM-B'', as_text = ''text 1'', as_dict = [], sha1_fingerprint = ''f1'',
         hpkp_pin = ''p1''\<rparr>"]
  by simp

text \<open>
  Claim C10: when the \<open>subject\<close> dict of a certificate has a \<open>commonName\<close>,
  \<open>printable_issuer_name\<close> returns that common name of the subject, and so does it for
  every certificate with the same subject, whatever its issuer (the \<open>issuer\<close> entry is not
  read). When the subject has no \<open>commonName\<close>, or \<open>as_dict\<close> has no \<open>subject\<close>, the
  result is made of the items of the \<open>issuer\<close> dict, each as \<open>key: value\<close>, joined by
  \<open>' - '\<close> (and \<open>KeyError\<close> when there is no \<open>issuer\<close> entry).
\<close>

theorem printable_issuer_name_reads_subject:
  "(subscript (as_dict c) ''subject'' = Inr subj \<and> subscript subj ''commonName'' = Inr cn
      \<longrightarrow> printable_issuer_name c = Inr cn
          \<and> (\<forall>c'. subscript (as_dict c') ''subject'' = Inr subj \<longrightarrow> printable_issuer_name c' = Inr cn))
   \<and> ((subscript (as_dict c) ''subject'' = Inr subj \<and> subscript subj ''commonName'' = Inl KeyError)
       \<or> subscript (as_dict c) ''subject'' = Inl KeyError
      \<longrightarrow> printable_issuer_name c =
            (case subscript (as_dict c) ''issuer'' of
               Inl e \<Rightarrow> Inl e
             | Inr iss \<Rightarrow> Inr (str_join '' - '' (map (\<lambda>(key, val). key @ '': '' @ val) iss))))"
  by (auto simp: printable_issuer_name_def)

text \<open>
  A certificate whose subject has a common name, one whose subject has none, and one
  without a \<open>subject\<close> entry.
\<close>

theorem printable_issuer_name_reads_subject_witness:
  "printable_issuer_name
     \<lparr>as_pem = ''PEM'', as_text = ''text'',
      as_dict = [(''subject'', [(''organizationName'', ''Example''), (''commonName'', ''example.com'')]),
                 (''issuer'', [(''countryName'', ''US''), (''commonName'', ''Example CA'')])],
      sha1_fingerprint = ''f'', hpkp_pin = ''p''\<rparr> = Inr ''example.com''
   \<and> printable_issuer_name
     \<lparr>as_pem = ''PEM'', as_text = ''text'',
      as_dict = [(''subject'', [(''organizationName'', ''Example'')]),
                 (''issuer'', [(''countryName'', ''US''), (''commonName'', ''Example CA'')])],
      sha1_fingerprint = ''f'', hpkp_pin = ''p''\<rparr> = Inr ''countryName: US - commonName: Example CA''
   \<and> printable_issuer_name
     \<lparr>as_pem = ''PEM'', as_text = ''text'',
      as_dict = [(''issuer'', [(''countryName'', ''US''), (''commonName'', ''Example CA'')])],
      sha1_fingerprint = ''f'', hpkp_pin = ''p''\<rparr> = Inr ''countryName: US - commonName: Example CA''"
  using printable_issuer_name_reads_subject
    [of "\<lparr>as_pem = ''PEM'', as_text = ''text'',
      as_dict = [(''subject'', [(''organizationName'', ''Example''), (''commonName'', ''example.com'')]),
                 (''issuer'', [(''countryName'', ''US''), (''commonName'', ''Example CA'')])],
      sha1_fingerprint = ''f'', hpkp_pin = ''p''\<rparr>"
      "[(''organizationName'', ''Example''), (''commonName'', ''example.com'')]" "''example.com''"]
    printable_issuer_name_reads_subject
    [of "\<lparr>as_pem = ''PEM'', as_text = ''text'',
      as_dict = [(''subject'', [(''organizationName'', ''Example'')]),
                 (''issuer'', [(''countryName'', ''US''), (''commonName'', ''Example CA'')])],
      sha1_fingerprint = ''f'', hpkp_pin = ''p''\<rparr>"
      "[(''organizationName'', ''Example'')]"]
    printable_issuer_name_reads_subject
    [of "\<lparr>as_pem = ''PEM'', as_text = ''text'',
      as_dict = [(''issuer'', [(''countryName'', ''US''), (''commonName'', ''Example CA'')])],
      sha1_fingerprint = ''f'', hpkp_pin = ''p''\<rparr>"]
  by (simp add: subscript_def)

end
